theory Spec2Isabelle
  imports Complex_Main "HOL-Library.Monad_Syntax"
begin

section \<open>JavaScript values\<close>

text \<open>
  The server (\<^verbatim>\<open>server.js\<close>) handles JSON: request bodies parsed by
  \<^verbatim>\<open>express.json()\<close>, and two files read with \<^verbatim>\<open>JSON.parse\<close>. Nothing in it is
  typed, so the model works on JavaScript values. A number is a double: not-a-number, an
  infinity, or a finite value, which is a rational. A string is a list of characters
  (code units below 256). An object is the list of its own properties, in insertion order.
\<close>

datatype jsnum = NaN | PosInf | NegInf | Fin rat

datatype jsval =
    JUndefined
  | JNull
  | JBool bool
  | JNum jsnum
  | JStr string
  | JArr "jsval list"
  | JObj "(string \<times> jsval) list"

text \<open>
  The conversions between strings and numbers are built into the engine and are not part
  of the repository. They are parameters of the model: \<open>StringToNumber\<close> is what
  \<^verbatim>\<open>Number(s)\<close> returns on a string, \<open>NumberToString\<close> what \<^verbatim>\<open>String(n)\<close> returns on a
  number, \<open>parseInt10\<close> is \<^verbatim>\<open>parseInt(s, 10)\<close>.
\<close>

record engine =
  StringToNumber :: "string \<Rightarrow> jsnum"
  NumberToString :: "jsnum \<Rightarrow> string"
  parseInt10 :: "string \<Rightarrow> jsnum"

text \<open>
  A computation that can throw returns an option: \<open>None\<close> is a thrown exception. Every
  handler catches all exceptions in the same way, so their kind is not recorded.
\<close>

subsection \<open>Truthiness, typeof, equality\<close>

fun truthy :: "jsval \<Rightarrow> bool" where
  "truthy JUndefined = False"
| "truthy JNull = False"
| "truthy (JBool b) = b"
| "truthy (JNum NaN) = False"
| "truthy (JNum (Fin q)) = (q \<noteq> 0)"
| "truthy (JNum _) = True"
| "truthy (JStr s) = (s \<noteq> [])"
| "truthy (JArr _) = True"
| "truthy (JObj _) = True"

text \<open>\<^verbatim>\<open>a === b\<close> on numbers: not-a-number equals nothing.\<close>

fun num_eq :: "jsnum \<Rightarrow> jsnum \<Rightarrow> bool" where
  "num_eq NaN _ = False"
| "num_eq _ NaN = False"
| "num_eq a b = (a = b)"

text \<open>
  \<^verbatim>\<open>a === b\<close>. Two arrays or two objects are equal only when they are the same object;
  the handlers compare a value read from a file with a value of the request, which never
  are.
\<close>

fun strict_eq :: "jsval \<Rightarrow> jsval \<Rightarrow> bool" where
  "strict_eq JUndefined JUndefined = True"
| "strict_eq JNull JNull = True"
| "strict_eq (JBool a) (JBool b) = (a = b)"
| "strict_eq (JNum a) (JNum b) = num_eq a b"
| "strict_eq (JStr a) (JStr b) = (a = b)"
| "strict_eq _ _ = False"

fun Number_isFinite :: "jsnum \<Rightarrow> bool" where
  "Number_isFinite (Fin _) = True"
| "Number_isFinite _ = False"

text \<open>\<^verbatim>\<open>n <= 0\<close>\<close>

fun num_le_zero :: "jsnum \<Rightarrow> bool" where
  "num_le_zero (Fin q) = (q \<le> 0)"
| "num_le_zero NegInf = True"
| "num_le_zero _ = False"

subsection \<open>Property access\<close>

text \<open>
  \<^verbatim>\<open>v.k\<close>, for the property names the handlers read (\<^verbatim>\<open>customer_id\<close>, \<^verbatim>\<open>items\<close>,
  \<^verbatim>\<open>cart_id\<close>, \<^verbatim>\<open>product_id\<close>, \<^verbatim>\<open>quantity\<close>, \<^verbatim>\<open>id\<close>, \<^verbatim>\<open>created_at\<close>), which no prototype
  defines: reading a property of \<^verbatim>\<open>null\<close> or \<^verbatim>\<open>undefined\<close> throws a TypeError, an
  object gives its own property or \<^verbatim>\<open>undefined\<close>, every other value gives
  \<^verbatim>\<open>undefined\<close>.
\<close>

fun get_prop :: "jsval \<Rightarrow> string \<Rightarrow> jsval option" where
  "get_prop JUndefined k = None"
| "get_prop JNull k = None"
| "get_prop (JObj kvs) k = Some (case map_of kvs k of None \<Rightarrow> JUndefined | Some v \<Rightarrow> v)"
| "get_prop _ k = Some JUndefined"

subsection \<open>Conversion to a number\<close>

text \<open>
  \<^verbatim>\<open>String(v)\<close>. An array joins the strings of its elements with commas, \<^verbatim>\<open>null\<close> and
  \<^verbatim>\<open>undefined\<close> elements giving the empty string. An object parsed from JSON has no
  callable property: when it has an own property \<^verbatim>\<open>toString\<close> the conversion finds no
  method to call and throws a TypeError, otherwise \<^verbatim>\<open>Object.prototype.toString\<close> answers.
\<close>

fun join_strings :: "string option list \<Rightarrow> string option" where
  "join_strings [] = Some []"
| "join_strings [x] = x"
| "join_strings (x # xs) =
     do { s \<leftarrow> x; r \<leftarrow> join_strings xs; Some (s @ '','' @ r) }"

fun ToString :: "engine \<Rightarrow> jsval \<Rightarrow> string option" where
  "ToString E JUndefined = Some ''undefined''"
| "ToString E JNull = Some ''null''"
| "ToString E (JBool b) = Some (if b then ''true'' else ''false'')"
| "ToString E (JNum n) = Some (NumberToString E n)"
| "ToString E (JStr s) = Some s"
| "ToString E (JArr xs) =
     join_strings (map (\<lambda>x. if x = JUndefined \<or> x = JNull then Some [] else ToString E x) xs)"
| "ToString E (JObj kvs) =
     (if map_of kvs ''toString'' \<noteq> None then None else Some ''[object Object]'')"

text \<open>\<^verbatim>\<open>Number(v)\<close>\<close>

fun Number :: "engine \<Rightarrow> jsval \<Rightarrow> jsnum option" where
  "Number E JUndefined = Some NaN"
| "Number E JNull = Some (Fin 0)"
| "Number E (JBool b) = Some (Fin (if b then 1 else 0))"
| "Number E (JNum n) = Some n"
| "Number E (JStr s) = Some (StringToNumber E s)"
| "Number E v = do { s \<leftarrow> ToString E v; Some (StringToNumber E s) }"

subsection \<open>Strings\<close>

text \<open>
  \<^verbatim>\<open>s.trim()\<close> removes white space and line terminators from both ends. Below 256 these
  are the code units 9 to 13, 32 and 160.
\<close>

definition is_space :: "char \<Rightarrow> bool" where
  "is_space c = (of_char c \<in> {9, 10, 11, 12, 13, 32, 160 :: nat})"

definition trim :: "string \<Rightarrow> string" where
  "trim s = rev (dropWhile is_space (rev (dropWhile is_space s)))"

subsection \<open>Array methods\<close>

text \<open>
  A method of \<^verbatim>\<open>Array.prototype\<close> called on a value that is not an array: the property is
  \<^verbatim>\<open>undefined\<close> (or, on an object parsed from JSON, not callable), and the call throws a
  TypeError.
\<close>

fun as_array :: "jsval \<Rightarrow> jsval list option" where
  "as_array (JArr xs) = Some xs"
| "as_array _ = None"

text \<open>
  \<^verbatim>\<open>xs.find(p)\<close>, \<^verbatim>\<open>xs.findIndex(p)\<close> and \<^verbatim>\<open>xs.filter(p)\<close> with a callback that can throw.
  \<^verbatim>\<open>find\<close> and \<^verbatim>\<open>findIndex\<close> stop at the first element the callback accepts and do not
  call it on the later elements.
\<close>

fun js_find :: "(jsval \<Rightarrow> bool option) \<Rightarrow> jsval list \<Rightarrow> jsval option" where
  "js_find p [] = Some JUndefined"
| "js_find p (x # xs) = do { b \<leftarrow> p x; if b then Some x else js_find p xs }"

fun js_findIndex :: "(jsval \<Rightarrow> bool option) \<Rightarrow> jsval list \<Rightarrow> int option" where
  "js_findIndex p [] = Some (- 1)"
| "js_findIndex p (x # xs) =
     do { b \<leftarrow> p x;
          if b then Some 0
          else do { i \<leftarrow> js_findIndex p xs; Some (if i < 0 then - 1 else i + 1) } }"

fun js_filter :: "(jsval \<Rightarrow> bool option) \<Rightarrow> jsval list \<Rightarrow> jsval list option" where
  "js_filter p [] = Some []"
| "js_filter p (x # xs) =
     do { b \<leftarrow> p x; r \<leftarrow> js_filter p xs; Some (if b then x # r else r) }"

section \<open>Dates\<close>

text \<open>
  A time value is a number of milliseconds since 1970-01-01T00:00:00Z, as \<^verbatim>\<open>Date.now()\<close>
  returns it. Its day is the number of whole days since that date; the year, month and
  day of the month of a day are those of the proleptic Gregorian calendar in UTC. They
  are computed on eras of 400 years (146097 days) that begin on a first of March:
  \<open>day_of_era\<close> is the day in the era, \<open>year_of_era\<close> its year in the era,
  \<open>day_of_year\<close> its day in that year, \<open>month_index\<close> its month counted from March.
\<close>

definition era :: "int \<Rightarrow> int" where
  "era z = (z + 719468) div 146097"

definition day_of_era :: "int \<Rightarrow> int" where
  "day_of_era z = (z + 719468) - era z * 146097"

definition year_of_era :: "int \<Rightarrow> int" where
  "year_of_era doe = (doe - doe div 1460 + doe div 36524 - doe div 146096) div 365"

definition day_of_year :: "int \<Rightarrow> int" where
  "day_of_year doe =
     doe - (365 * year_of_era doe + year_of_era doe div 4 - year_of_era doe div 100)"

definition month_index :: "int \<Rightarrow> int" where
  "month_index doy = (5 * doy + 2) div 153"

definition civil_month :: "int \<Rightarrow> int" where
  "civil_month z =
     (if month_index (day_of_year (day_of_era z)) < 10
      then month_index (day_of_year (day_of_era z)) + 3
      else month_index (day_of_year (day_of_era z)) - 9)"

definition civil_day :: "int \<Rightarrow> int" where
  "civil_day z =
     day_of_year (day_of_era z)
       - (153 * month_index (day_of_year (day_of_era z)) + 2) div 5 + 1"

definition civil_year :: "int \<Rightarrow> int" where
  "civil_year z =
     year_of_era (day_of_era z) + era z * 400 + (if civil_month z \<le> 2 then 1 else 0)"

definition utc_day :: "int \<Rightarrow> int" where
  "utc_day t = t div 86400000"

definition ms_of_day :: "int \<Rightarrow> int" where
  "ms_of_day t = t mod 86400000"

text \<open>\<open>digits w n\<close> is the last \<open>w\<close> decimal digits of \<open>n\<close>, padded with zeros.\<close>

definition digit :: "nat \<Rightarrow> char" where
  "digit n = ''0123456789'' ! (n mod 10)"

fun digits :: "nat \<Rightarrow> nat \<Rightarrow> string" where
  "digits 0 n = []"
| "digits (Suc w) n = digits w (n div 10) @ [digit n]"

text \<open>
  \<^verbatim>\<open>new Date(t).toISOString()\<close>: \<^verbatim>\<open>YYYY-MM-DDTHH:mm:ss.sssZ\<close> in UTC, the year with a
  sign and six digits when it is not between 0 and 9999.
\<close>

definition year_string :: "int \<Rightarrow> string" where
  "year_string y =
     (if 0 \<le> y \<and> y \<le> 9999 then digits 4 (nat y)
      else (if y < 0 then ''-'' else ''+'') @ digits 6 (nat \<bar>y\<bar>))"

definition toISOString :: "int \<Rightarrow> string" where
  "toISOString t =
     year_string (civil_year (utc_day t)) @ ''-''
     @ digits 2 (nat (civil_month (utc_day t))) @ ''-''
     @ digits 2 (nat (civil_day (utc_day t))) @ ''T''
     @ digits 2 (nat (ms_of_day t div 3600000)) @ '':''
     @ digits 2 (nat (ms_of_day t div 60000 mod 60)) @ '':''
     @ digits 2 (nat (ms_of_day t div 1000 mod 60)) @ ''.''
     @ digits 3 (nat (ms_of_day t mod 1000)) @ ''Z''"

text \<open>The decimal numeral of an integer, as a template literal prints it.\<close>

fun decimal_nat :: "nat \<Rightarrow> string" where
  "decimal_nat n = (if n < 10 then [digit n] else decimal_nat (n div 10) @ [digit n])"

definition decimal :: "int \<Rightarrow> string" where
  "decimal i = (if i < 0 then ''-'' @ decimal_nat (nat (- i)) else decimal_nat (nat i))"

section \<open>What a request reads from outside\<close>

text \<open>
  A handler reads the clock and the random number generator. Each read is a field of the
  environment of the request: \<open>Date_generateCartId\<close> is the value of \<^verbatim>\<open>new Date()\<close> in
  \<^verbatim>\<open>generateCartId\<close>, \<open>Math_random\<close> the value of \<^verbatim>\<open>Math.random()\<close> there,
  \<open>Date_createdAt\<close> the value of \<^verbatim>\<open>new Date()\<close> for \<^verbatim>\<open>createdAt\<close>, \<open>Date_now\<close> the value
  of \<^verbatim>\<open>Date.now()\<close> for \<^verbatim>\<open>expiresAt\<close>. The two last are two reads: nothing makes the
  clock return the same value twice. \<^verbatim>\<open>Math.random()\<close> returns a double from 0 up to but
  not including 1; the model takes its value as a rational and multiplies it exactly.
\<close>

record env =
  Date_generateCartId :: int
  Math_random :: rat
  Date_createdAt :: int
  Date_now :: int

text \<open>
  A file does not exist, or cannot be read as JSON (the read fails with another error, or
  the text does not parse), or holds a value.
\<close>

datatype json_file = ENOENT | Unreadable | Holding jsval

record disk =
  PRODUCTS_FILE :: json_file
  CARTS_FILE :: json_file

text \<open>A promise is settled with a value, or rejected (\<open>None\<close>).\<close>

datatype 'a promise = Promise "'a option"

fun await :: "'a promise \<Rightarrow> 'a option" where
  "await (Promise r) = r"

definition readJsonOrEmpty :: "json_file \<Rightarrow> jsval promise" where
  "readJsonOrEmpty f =
     Promise (case f of Holding v \<Rightarrow> Some v | ENOENT \<Rightarrow> Some (JArr []) | Unreadable \<Rightarrow> None)"

text \<open>
  \<^verbatim>\<open>writeJson\<close> writes the text of the value, and reading the file back parses it. The
  handler writes only the carts file. The model keeps the value: the strings, the finite
  numbers and the records already read from the file come back as they were, and a
  property written as \<^verbatim>\<open>undefined\<close> comes back absent, which \<open>get_prop\<close> answers with
  \<^verbatim>\<open>undefined\<close> again. A number that is not finite would come back as \<^verbatim>\<open>null\<close>; the
  handler can write one only as the \<^verbatim>\<open>product_id\<close> of an item, when the id of a product
  of the catalog is itself not finite. Writing is taken to succeed.
\<close>

definition writeJson_carts :: "disk \<Rightarrow> jsval \<Rightarrow> disk" where
  "writeJson_carts d v = d\<lparr>CARTS_FILE := Holding v\<rparr>"

definition generateCartId :: "env \<Rightarrow> string" where
  "generateCartId e =
     (let date = filter (\<lambda>c. c \<noteq> CHR ''-'') (take 10 (toISOString (Date_generateCartId e)));
          rnd = \<lfloor>Math_random e * 9000\<rfloor> + 1000
      in ''CART-'' @ date @ ''-'' @ decimal rnd)"

section \<open>Responses\<close>

record response =
  status :: nat
  json :: jsval

definition internal_server_error :: response where
  "internal_server_error =
     \<lparr>status = 500,
      json = JObj [(''success'', JBool False), (''error'', JStr ''internal_server_error'')]\<rparr>"

definition failure :: "nat \<Rightarrow> string \<Rightarrow> response" where
  "failure code err =
     \<lparr>status = code, json = JObj [(''success'', JBool False), (''error'', JStr err)]\<rparr>"

section \<open>GET /products\<close>

text \<open>
  The handler calls \<^verbatim>\<open>slice\<close> on what \<^verbatim>\<open>readJsonOrEmpty\<close> returns, before \<^verbatim>\<open>await\<close>
  applies: \<^verbatim>\<open>await readJsonOrEmpty(PRODUCTS_FILE).slice(0, limit)\<close>. That is a
  promise, which has no property \<^verbatim>\<open>slice\<close>, and the call throws a TypeError.
\<close>

definition slice_of_promise :: "jsval promise \<Rightarrow> jsnum \<Rightarrow> jsnum \<Rightarrow> jsval option" where
  "slice_of_promise p start stop = None"

definition get_products_try :: "engine \<Rightarrow> disk \<Rightarrow> jsval \<Rightarrow> response option" where
  "get_products_try E d query_limit =
     do { s \<leftarrow> ToString E query_limit;
          let n = parseInt10 E s;
          let limit = (if truthy (JNum n) then n else Fin 10);
          products \<leftarrow> slice_of_promise (readJsonOrEmpty (PRODUCTS_FILE d)) (Fin 0) limit;
          xs \<leftarrow> as_array products;
          Some \<lparr>status = 200,
                json = JObj [(''success'', JBool True),
                             (''total'', JNum (Fin (of_nat (length xs)))),
                             (''products'', products)]\<rparr> }"

definition get_products :: "engine \<Rightarrow> disk \<Rightarrow> jsval \<Rightarrow> response" where
  "get_products E d query_limit =
     (case get_products_try E d query_limit of
        None \<Rightarrow> internal_server_error
      | Some r \<Rightarrow> r)"

section \<open>GET /products/:id\<close>

text \<open>The callback \<^verbatim>\<open>p => Number(p.id) === id\<close>.\<close>

definition id_is :: "engine \<Rightarrow> jsnum \<Rightarrow> jsval \<Rightarrow> bool option" where
  "id_is E n p = do { v \<leftarrow> get_prop p ''id''; m \<leftarrow> Number E v; Some (num_eq m n) }"

definition get_product_try :: "engine \<Rightarrow> disk \<Rightarrow> string \<Rightarrow> response option" where
  "get_product_try E d params_id =
     do { products \<leftarrow> await (readJsonOrEmpty (PRODUCTS_FILE d));
          id \<leftarrow> Number E (JStr params_id);
          ps \<leftarrow> as_array products;
          product \<leftarrow> js_find (id_is E id) ps;
          if \<not> truthy product then Some (failure 404 ''product_not_found'')
          else Some \<lparr>status = 200,
                     json = JObj [(''success'', JBool True), (''product'', product)]\<rparr> }"

definition get_product :: "engine \<Rightarrow> disk \<Rightarrow> string \<Rightarrow> response" where
  "get_product E d params_id =
     (case get_product_try E d params_id of
        None \<Rightarrow> internal_server_error
      | Some r \<Rightarrow> r)"

section \<open>POST /carts\<close>

text \<open>
  One pass of the validation loop, on the item \<open>it\<close> at index \<open>i\<close>: the entry pushed on
  \<^verbatim>\<open>invalidItems\<close>, if any.
\<close>

definition check_item :: "engine \<Rightarrow> jsval \<Rightarrow> nat \<Rightarrow> jsval \<Rightarrow> jsval option option" where
  "check_item E products i it =
     do { product_id \<leftarrow> get_prop it ''product_id'';
          quantity \<leftarrow> get_prop it ''quantity'';
          if product_id = JUndefined \<or> quantity = JUndefined then
            Some (Some (JObj [(''index'', JNum (Fin (of_nat i))),
                              (''reason'', JStr ''product_id and quantity are required'')]))
          else do {
            qty \<leftarrow> Number E quantity;
            if \<not> Number_isFinite qty \<or> num_le_zero qty then
              Some (Some (JObj [(''index'', JNum (Fin (of_nat i))),
                                (''reason'', JStr ''quantity must be a positive number'')]))
            else do {
              pid \<leftarrow> Number E product_id;
              ps \<leftarrow> as_array products;
              found \<leftarrow> js_find (id_is E pid) ps;
              if \<not> truthy found then
                Some (Some (JObj [(''index'', JNum (Fin (of_nat i))),
                                  (''reason'', JStr ''product_not_found''),
                                  (''product_id'', JNum pid)]))
              else Some None } } }"

text \<open>The loop over \<^verbatim>\<open>body.items\<close> from index \<open>i\<close> on: the entries it pushes, in order.\<close>

fun check_items :: "engine \<Rightarrow> jsval \<Rightarrow> nat \<Rightarrow> jsval list \<Rightarrow> jsval list option" where
  "check_items E products i [] = Some []"
| "check_items E products i (it # its) =
     do { r \<leftarrow> check_item E products i it;
          rest \<leftarrow> check_items E products (Suc i) its;
          Some (case r of None \<Rightarrow> rest | Some entry \<Rightarrow> entry # rest) }"

text \<open>
  \<^verbatim>\<open>body.items.map(it => ({ product_id: Number(it.product_id), quantity:
  Number(it.quantity) }))\<close>
\<close>

definition store_item :: "engine \<Rightarrow> jsval \<Rightarrow> jsval option" where
  "store_item E it =
     do { product_id \<leftarrow> get_prop it ''product_id'';
          pid \<leftarrow> Number E product_id;
          quantity \<leftarrow> get_prop it ''quantity'';
          qty \<leftarrow> Number E quantity;
          Some (JObj [(''product_id'', JNum pid), (''quantity'', JNum qty)]) }"

fun store_items :: "engine \<Rightarrow> jsval list \<Rightarrow> jsval list option" where
  "store_items E [] = Some []"
| "store_items E (it # its) =
     do { x \<leftarrow> store_item E it; xs \<leftarrow> store_items E its; Some (x # xs) }"

text \<open>The callback \<^verbatim>\<open>c => c.cart_id === cartId\<close>.\<close>

definition cart_id_is :: "string \<Rightarrow> jsval \<Rightarrow> bool option" where
  "cart_id_is cartId c = do { v \<leftarrow> get_prop c ''cart_id''; Some (strict_eq v (JStr cartId)) }"

text \<open>
  \<^verbatim>\<open>body.cart_id && typeof body.cart_id === 'string' && body.cart_id.trim() !== '' ?
  body.cart_id.trim() : generateCartId()\<close>
\<close>

definition resolve_cart_id :: "env \<Rightarrow> jsval \<Rightarrow> string" where
  "resolve_cart_id e cart_id =
     (case cart_id of
        JStr s \<Rightarrow> if truthy (JStr s) \<and> trim s \<noteq> [] then trim s else generateCartId e
      | _ \<Rightarrow> generateCartId e)"

text \<open>
  The second half of the handler, after validation: read the carts, resolve the id, build
  the cart, replace or append, write, answer.
\<close>

definition persist_cart ::
  "engine \<Rightarrow> env \<Rightarrow> disk \<Rightarrow> jsval \<Rightarrow> jsval \<Rightarrow> jsval list \<Rightarrow> (response \<times> disk) option" where
  "persist_cart E e d body customer_id items =
     do { carts_v \<leftarrow> await (readJsonOrEmpty (CARTS_FILE d));
          cart_id \<leftarrow> get_prop body ''cart_id'';
          let cartId = resolve_cart_id e cart_id;
          carts \<leftarrow> as_array carts_v;
          existingIndex \<leftarrow> js_findIndex (cart_id_is cartId) carts;
          let createdAt = toISOString (Date_createdAt e);
          let expiresAt = toISOString (Date_now e + 1000 * 60 * 60 * 24 * 7);
          new_items \<leftarrow> store_items E items;
          created_at \<leftarrow> (if existingIndex \<ge> 0
                          then get_prop (carts ! nat existingIndex) ''created_at''
                          else Some (JStr createdAt));
          let newCart = JObj [(''cart_id'', JStr cartId),
                              (''customer_id'', customer_id),
                              (''items'', JArr new_items),
                              (''status'', JStr ''saved''),
                              (''created_at'', created_at),
                              (''updated_at'', JStr createdAt),
                              (''expires_at'', JStr expiresAt)];
          let carts' = (if existingIndex \<ge> 0 then carts[nat existingIndex := newCart]
                        else carts @ [newCart]);
          let d' = writeJson_carts d (JArr carts');
          Some (\<lparr>status = (if existingIndex \<ge> 0 then 200 else 201),
                 json = JObj [(''success'', JBool True),
                              (''cart_id'', JStr cartId),
                              (''status'', JStr ''saved''),
                              (''message'', JStr (if existingIndex \<ge> 0 then ''Cart updated''
                                                  else ''Cart saved''))]\<rparr>,
                d') }"

text \<open>
  The body of the \<^verbatim>\<open>try\<close> block. \<^verbatim>\<open>req.body || {}\<close> is the body, or an empty object when
  the body is falsy.
\<close>

definition post_carts_try ::
  "engine \<Rightarrow> env \<Rightarrow> disk \<Rightarrow> jsval \<Rightarrow> (response \<times> disk) option" where
  "post_carts_try E e d req_body =
     (let body = (if truthy req_body then req_body else JObj []) in
      do { customer_id \<leftarrow> get_prop body ''customer_id'';
           if \<not> truthy customer_id
              \<or> (case customer_id of JStr s \<Rightarrow> trim s = [] | _ \<Rightarrow> True)
           then Some (failure 400 ''missing_customer_id'', d)
           else do {
             items \<leftarrow> get_prop body ''items'';
             case items of
               JArr its \<Rightarrow>
                 if length its = 0 then Some (failure 400 ''items_required'', d)
                 else do {
                   products \<leftarrow> await (readJsonOrEmpty (PRODUCTS_FILE d));
                   invalidItems \<leftarrow> check_items E products 0 its;
                   if length invalidItems \<noteq> 0 then
                     Some (\<lparr>status = 400,
                            json = JObj [(''success'', JBool False),
                                         (''error'', JStr ''invalid_items''),
                                         (''details'', JArr invalidItems)]\<rparr>, d)
                   else persist_cart E e d body customer_id its }
             | _ \<Rightarrow> Some (failure 400 ''items_required'', d) } })"

text \<open>The handler: any exception is caught and answered with 500; nothing was written.\<close>

definition post_carts :: "engine \<Rightarrow> env \<Rightarrow> disk \<Rightarrow> jsval \<Rightarrow> response \<times> disk" where
  "post_carts E e d req_body =
     (case post_carts_try E e d req_body of
        None \<Rightarrow> (internal_server_error, d)
      | Some r \<Rightarrow> r)"

section \<open>GET /carts\<close>

text \<open>The callback \<^verbatim>\<open>c => c.customer_id === userId\<close>.\<close>

definition customer_is :: "jsval \<Rightarrow> jsval \<Rightarrow> bool option" where
  "customer_is userId c = do { v \<leftarrow> get_prop c ''customer_id''; Some (strict_eq v userId) }"

definition get_carts_try :: "disk \<Rightarrow> jsval \<Rightarrow> response option" where
  "get_carts_try d userId =
     (if \<not> truthy userId then Some (failure 400 ''missing_user_id'')
      else do {
        carts_v \<leftarrow> await (readJsonOrEmpty (CARTS_FILE d));
        carts \<leftarrow> as_array carts_v;
        userCarts \<leftarrow> js_filter (customer_is userId) carts;
        Some \<lparr>status = 200,
              json = JObj [(''success'', JBool True),
                           (''total'', JNum (Fin (of_nat (length userCarts)))),
                           (''carts'', JArr userCarts)]\<rparr> })"

definition get_carts :: "disk \<Rightarrow> jsval \<Rightarrow> response" where
  "get_carts d userId =
     (case get_carts_try d userId of
        None \<Rightarrow> internal_server_error
      | Some r \<Rightarrow> r)"

section \<open>Vocabulary of the properties\<close>

text \<open>The carts as a handler reads them: the array in the carts file, empty when the file
  does not exist.\<close>

definition stored_carts :: "disk \<Rightarrow> jsval list option" where
  "stored_carts d = do { v \<leftarrow> await (readJsonOrEmpty (CARTS_FILE d)); as_array v }"

text \<open>
  A submission is valid when it passes the three checks of the handler: \<^verbatim>\<open>customer_id\<close>
  is a string that is not blank, \<^verbatim>\<open>items\<close> is an array that is not empty, and the loop
  over the items finds nothing to report.
\<close>

definition valid_submission :: "engine \<Rightarrow> disk \<Rightarrow> jsval \<Rightarrow> bool" where
  "valid_submission E d body =
     (case get_prop body ''customer_id'' of
        Some (JStr s) \<Rightarrow>
          trim s \<noteq> [] \<and>
          (case get_prop body ''items'' of
             Some (JArr its) \<Rightarrow>
               its \<noteq> [] \<and>
               (case await (readJsonOrEmpty (PRODUCTS_FILE d)) of
                  Some products \<Rightarrow> check_items E products 0 its = Some []
                | None \<Rightarrow> False)
           | _ \<Rightarrow> False)
      | _ \<Rightarrow> False)"

text \<open>The catalog as a handler reads it.\<close>

definition catalog :: "disk \<Rightarrow> jsval list option" where
  "catalog d = do { v \<leftarrow> await (readJsonOrEmpty (PRODUCTS_FILE d)); as_array v }"

text \<open>The items of a request body, and the cart id the handler resolves for it.\<close>

definition items_of :: "jsval \<Rightarrow> jsval list" where
  "items_of body = (case get_prop body ''items'' of Some (JArr its) \<Rightarrow> its | _ \<Rightarrow> [])"

definition resolved_cart_id :: "env \<Rightarrow> jsval \<Rightarrow> string" where
  "resolved_cart_id e body =
     (case get_prop body ''cart_id'' of
        Some v \<Rightarrow> resolve_cart_id e v
      | None \<Rightarrow> generateCartId e)"

text \<open>The cart object the handler builds, as a function of its seven fields.\<close>

definition cart_record ::
  "string \<Rightarrow> jsval \<Rightarrow> jsval list \<Rightarrow> jsval \<Rightarrow> string \<Rightarrow> string \<Rightarrow> jsval" where
  "cart_record cartId customer_id items created_at updated_at expires_at =
     JObj [(''cart_id'', JStr cartId),
           (''customer_id'', customer_id),
           (''items'', JArr items),
           (''status'', JStr ''saved''),
           (''created_at'', created_at),
           (''updated_at'', JStr updated_at),
           (''expires_at'', JStr expires_at)]"

text \<open>The answer to an accepted submission: 201 for a new cart, 200 for a replaced one.\<close>

definition saved_response :: "bool \<Rightarrow> string \<Rightarrow> response" where
  "saved_response existing cartId =
     \<lparr>status = (if existing then 200 else 201),
      json = JObj [(''success'', JBool True),
                   (''cart_id'', JStr cartId),
                   (''status'', JStr ''saved''),
                   (''message'', JStr (if existing then ''Cart updated'' else ''Cart saved''))]\<rparr>"

text \<open>
  The cart id of a stored record, when it is a string, and the cart ids of a list of
  records. A record whose \<^verbatim>\<open>cart_id\<close> is not a string equals no resolved id.
\<close>

definition cart_id_of :: "jsval \<Rightarrow> string option" where
  "cart_id_of c = (case get_prop c ''cart_id'' of Some (JStr s) \<Rightarrow> Some s | _ \<Rightarrow> None)"

definition cart_ids :: "jsval list \<Rightarrow> string list" where
  "cart_ids cs = List.map_filter cart_id_of cs"

text \<open>Seven days, in milliseconds.\<close>

definition seven_days :: int where
  "seven_days = 1000 * 60 * 60 * 24 * 7"

text \<open>The successful answers of GET /carts and GET /products/:id.\<close>

definition carts_response :: "jsval list \<Rightarrow> response" where
  "carts_response userCarts =
     \<lparr>status = 200,
      json = JObj [(''success'', JBool True),
                   (''total'', JNum (Fin (of_nat (length userCarts)))),
                   (''carts'', JArr userCarts)]\<rparr>"

definition product_response :: "jsval \<Rightarrow> response" where
  "product_response product =
     \<lparr>status = 200, json = JObj [(''success'', JBool True), (''product'', product)]\<rparr>"

text \<open>
  The form \<^verbatim>\<open>CART-<YYYYMMDD>-<4-digit-random>\<close> of a generated cart id, as the
  specification words it: the UTC calendar date of the clock in eight digits, and a number
  between 1000 and 9999.
\<close>

definition yyyymmdd :: "int \<Rightarrow> string" where
  "yyyymmdd t =
     digits 4 (nat (civil_year (utc_day t))) @ digits 2 (nat (civil_month (utc_day t)))
     @ digits 2 (nat (civil_day (utc_day t)))"

definition generated_form :: "env \<Rightarrow> string \<Rightarrow> bool" where
  "generated_form e cartId =
     (\<exists>n\<in>{1000..9999}.
        cartId = ''CART-'' @ yyyymmdd (Date_generateCartId e) @ ''-'' @ digits 4 n)"

section \<open>Examples\<close>

text \<open>
  An engine for the examples. It converts a string of decimal digits to its number (the
  empty string to 0, as \<^verbatim>\<open>Number('')\<close> is) and an integer to its decimal numeral, as
  JavaScript does; the examples give it nothing else.
\<close>

definition digits_number :: "string \<Rightarrow> jsnum" where
  "digits_number s =
     (if list_all (\<lambda>c. 48 \<le> (of_char c :: nat) \<and> (of_char c :: nat) \<le> 57) s
      then Fin (of_nat (foldl (\<lambda>a c. 10 * a + (of_char c - 48)) (0::nat) s))
      else NaN)"

definition example_engine :: engine where
  "example_engine =
     \<lparr>StringToNumber = digits_number,
      NumberToString =
        (\<lambda>n. case n of
                Fin q \<Rightarrow> decimal \<lfloor>q\<rfloor>
              | NaN \<Rightarrow> ''NaN''
              | PosInf \<Rightarrow> ''Infinity''
              | NegInf \<Rightarrow> ''-Infinity''),
      parseInt10 = (\<lambda>s. if s = [] then NaN else digits_number s)\<rparr>"

text \<open>The catalog of the scenarios: two products, with ids 1 and 2.\<close>

definition product1 :: jsval where
  "product1 = JObj [(''id'', JNum (Fin 1)), (''name'', JStr ''Bandage'')]"

definition product2 :: jsval where
  "product2 = JObj [(''id'', JNum (Fin 2)), (''name'', JStr ''Plaster'')]"

definition disk12 :: disk where
  "disk12 = \<lparr>PRODUCTS_FILE = Holding (JArr [product1, product2]), CARTS_FILE = ENOENT\<rparr>"

text \<open>A request at 2023-11-14T22:13:20.000Z, the clock standing still during the request.\<close>

definition env1 :: env where
  "env1 = \<lparr>Date_generateCartId = 1700000000000, Math_random = 1 / 2,
           Date_createdAt = 1700000000000, Date_now = 1700000000000\<rparr>"

definition item :: "rat \<Rightarrow> rat \<Rightarrow> jsval" where
  "item p q = JObj [(''product_id'', JNum (Fin p)), (''quantity'', JNum (Fin q))]"

text \<open>\<^verbatim>\<open>{customer_id: "u1", items: [{product_id: 1, quantity: 2}, {product_id: 9,
  quantity: 1}]}\<close>\<close>

definition body_unknown_product :: jsval where
  "body_unknown_product =
     JObj [(''customer_id'', JStr ''u1''), (''items'', JArr [item 1 2, item 9 1])]"

text \<open>\<^verbatim>\<open>{customer_id: "u1", items: [{product_id: 1, quantity: 2}]}\<close>, with no cart id.\<close>

definition body_new :: jsval where
  "body_new = JObj [(''customer_id'', JStr ''u1''), (''items'', JArr [item 1 2])]"

text \<open>A second submission, ten minutes later, with the cart id the first one returned.\<close>

definition env2 :: env where
  "env2 = \<lparr>Date_generateCartId = 1700000600000, Math_random = 1 / 4,
           Date_createdAt = 1700000600000, Date_now = 1700000600000\<rparr>"

definition body_again :: jsval where
  "body_again =
     JObj [(''cart_id'', JStr ''CART-20231114-5500''), (''customer_id'', JStr ''u1''),
           (''items'', JArr [item 1 2, item 2 1])]"

text \<open>The same cart id, submitted by another customer.\<close>

definition body_other_customer :: jsval where
  "body_other_customer =
     JObj [(''cart_id'', JStr ''CART-20231114-5500''), (''customer_id'', JStr ''u2''),
           (''items'', JArr [item 2 3])]"

text \<open>The disk after the submission \<open>body_new\<close> of customer u1 at \<open>env1\<close>.\<close>

definition cart_u1 :: jsval where
  "cart_u1 =
     cart_record ''CART-20231114-5500'' (JStr ''u1'') [item 1 2]
       (JStr ''2023-11-14T22:13:20.000Z'') ''2023-11-14T22:13:20.000Z''
       ''2023-11-21T22:13:20.000Z''"

definition disk_saved :: disk where
  "disk_saved = disk12\<lparr>CARTS_FILE := Holding (JArr [cart_u1])\<rparr>"

text \<open>A customer id and a cart id with spaces around them.\<close>

definition body_padded_customer :: jsval where
  "body_padded_customer =
     JObj [(''customer_id'', JStr '' u1 ''), (''items'', JArr [item 1 2])]"

definition body_padded_cart_id :: jsval where
  "body_padded_cart_id =
     JObj [(''cart_id'', JStr '' c1 ''), (''customer_id'', JStr ''u1''),
           (''items'', JArr [item 1 2])]"

text \<open>A request during which the clock advances by one millisecond between the two reads
  of the handler.\<close>

definition env_tick :: env where
  "env_tick = \<lparr>Date_generateCartId = 1700000000000, Math_random = 1 / 2,
               Date_createdAt = 1700000000000, Date_now = 1700000000001\<rparr>"

text \<open>A request ten minutes after \<open>env1\<close>, on the same day, for which \<^verbatim>\<open>Math.random()\<close>
  returns one half again: the cart id it generates is the one generated at \<open>env1\<close>.\<close>

definition env_same_suffix :: env where
  "env_same_suffix = \<lparr>Date_generateCartId = 1700000600000, Math_random = 1 / 2,
                      Date_createdAt = 1700000600000, Date_now = 1700000600000\<rparr>"

text \<open>\<^verbatim>\<open>{customer_id: "u1", items: [{product_id: 9, quantity: 1}, null]}\<close>\<close>

definition body_null_item :: jsval where
  "body_null_item =
     JObj [(''customer_id'', JStr ''u1''), (''items'', JArr [item 9 1, JNull])]"

section \<open>Properties\<close>

text \<open>The equations that run a handler on a concrete request, and those of the examples.\<close>

lemmas handler_defs =
  post_carts_def post_carts_try_def persist_cart_def check_item_def store_item_def
  id_is_def cart_id_is_def customer_is_def resolve_cart_id_def readJsonOrEmpty_def
  writeJson_carts_def failure_def internal_server_error_def get_product_def
  get_product_try_def get_carts_def get_carts_try_def Let_def

lemmas example_defs =
  example_engine_def digits_number_def product1_def product2_def disk12_def env1_def
  item_def body_unknown_product_def body_new_def env2_def body_again_def
  body_other_customer_def cart_u1_def disk_saved_def body_padded_customer_def
  body_padded_cart_id_def env_tick_def env_same_suffix_def body_null_item_def

subsection \<open>Auxiliary facts: dates and digits on concrete values\<close>

lemma digits2: "digits 2 n = [digit (n div 10), digit n]"
proof -
  have e: "(2::nat) = Suc (Suc 0)" by arith
  show ?thesis unfolding e by simp
qed

lemma digits3: "digits 3 n = [digit (n div 10 div 10), digit (n div 10), digit n]"
proof -
  have e: "(3::nat) = Suc (Suc (Suc 0))" by arith
  show ?thesis unfolding e by simp
qed

lemma digits4:
  "digits 4 n =
     [digit (n div 10 div 10 div 10), digit (n div 10 div 10), digit (n div 10), digit n]"
proof -
  have e: "(4::nat) = Suc (Suc (Suc (Suc 0)))" by arith
  show ?thesis unfolding e by simp
qed

lemmas date_defs =
  toISOString_def year_string_def civil_year_def civil_month_def civil_day_def
  month_index_def day_of_year_def year_of_era_def day_of_era_def era_def utc_day_def
  ms_of_day_def digits2 digits3 digits4 digit_def

lemma toISOString_examples:
  "toISOString 1700000000000 = ''2023-11-14T22:13:20.000Z''"
  "toISOString 1700604800000 = ''2023-11-21T22:13:20.000Z''"
  "toISOString 1700604800001 = ''2023-11-21T22:13:20.001Z''"
  "toISOString 1700000600000 = ''2023-11-14T22:23:20.000Z''"
  "toISOString 1700605400000 = ''2023-11-21T22:23:20.000Z''"
  by (simp_all add: date_defs)

text \<open>The calendar on known dates: the epoch and the millisecond before it, leap days,
  the first of March after a February without one, the ends of the four-digit years.\<close>

lemma toISOString_calendar:
  "toISOString 0 = ''1970-01-01T00:00:00.000Z''"
  "toISOString (- 1) = ''1969-12-31T23:59:59.999Z''"
  "toISOString 951782400000 = ''2000-02-29T00:00:00.000Z''"
  "toISOString 1709251199999 = ''2024-02-29T23:59:59.999Z''"
  "toISOString 1709251200000 = ''2024-03-01T00:00:00.000Z''"
  "toISOString (- 2203891200000) = ''1900-03-01T00:00:00.000Z''"
  "toISOString (- 62167219200000) = ''0000-01-01T00:00:00.000Z''"
  "toISOString 253402300799999 = ''9999-12-31T23:59:59.999Z''"
  by (simp_all add: date_defs)

lemma generateCartId_example: "generateCartId env1 = ''CART-20231114-5500''"
  by (simp add: generateCartId_def env1_def toISOString_examples decimal_def digit_def)

lemma trim_examples: "trim ''u1'' = ''u1''" "trim '' u1 '' = ''u1''" "trim '' c1 '' = ''c1''"
  "trim ''CART-20231114-5500'' = ''CART-20231114-5500''" "trim ''u2'' = ''u2''"
  by (simp_all add: trim_def is_space_def)

subsection \<open>Auxiliary facts: findIndex, validation, the second half of POST /carts\<close>


lemma findIndex_present:
  "js_findIndex p xs = Some i \<Longrightarrow> 0 \<le> i \<Longrightarrow>
     nat i < length xs \<and> p (xs ! nat i) = Some True \<and> (\<forall>j<nat i. p (xs ! j) = Some False)"
proof (induction xs arbitrary: i)
  case Nil
  then show ?case by simp
next
  case (Cons x xs)
  show ?case
  proof (cases "p x = Some True")
    case True
    with Cons.prems show ?thesis by simp
  next
    case False
    with Cons.prems obtain k where px: "p x = Some False" and k: "js_findIndex p xs = Some k"
      and i: "i = (if k < 0 then - 1 else k + 1)"
      by (auto split: Option.bind_splits if_splits)
    from i Cons.prems(2) have k0: "0 \<le> k" and ik: "i = k + 1" by (auto split: if_splits)
    from Cons.IH [OF k k0] have IH: "nat k < length xs" "p (xs ! nat k) = Some True"
      "\<forall>j<nat k. p (xs ! j) = Some False" by auto
    have ni: "nat i = Suc (nat k)" using ik k0 by simp
    show ?thesis using IH px ni by (auto simp: nth_Cons split: nat.splits)
  qed
qed

lemma findIndex_none:
  "\<forall>x\<in>set xs. p x = Some False \<Longrightarrow> js_findIndex p xs = Some (- 1)"
  by (induction xs) auto

lemma findIndex_first:
  "i < length xs \<Longrightarrow> p (xs ! i) = Some True \<Longrightarrow> \<forall>j<i. p (xs ! j) = Some False \<Longrightarrow>
     js_findIndex p xs = Some (int i)"
proof (induction xs arbitrary: i)
  case Nil
  then show ?case by simp
next
  case (Cons x xs)
  show ?case
  proof (cases i)
    case 0
    with Cons.prems show ?thesis by simp
  next
    case (Suc k)
    with Cons.prems have "k < length xs" "p (xs ! k) = Some True" "\<forall>j<k. p (xs ! j) = Some False"
      "p x = Some False" by auto
    with Cons.IH [of k] Suc show ?thesis by simp
  qed
qed

lemma check_item_valid:
  "check_item E products i it = Some None \<Longrightarrow> \<exists>x. store_item E it = Some x"
  by (auto simp: check_item_def store_item_def split: Option.bind_splits if_splits)

lemma check_items_valid:
  "check_items E products i its = Some [] \<Longrightarrow> \<exists>xs. store_items E its = Some xs"
proof (induction its arbitrary: i)
  case Nil
  then show ?case by simp
next
  case (Cons it its)
  from Cons.prems obtain r rest where r: "check_item E products i it = Some r"
    and rest: "check_items E products (Suc i) its = Some rest"
    and nil: "(case r of None \<Rightarrow> rest | Some entry \<Rightarrow> entry # rest) = []"
    by (auto split: Option.bind_splits)
  from nil have "r = None" "rest = []" by (auto split: option.splits)
  with r rest Cons.IH check_item_valid show ?case by fastforce
qed

text \<open>For a valid submission the handler reaches its second half.\<close>

lemma valid_submission_fields:
  assumes "valid_submission E d body"
  obtains kvs s its products where "body = JObj kvs" "get_prop body ''customer_id'' = Some (JStr s)" "trim s \<noteq> []"
    "get_prop body ''items'' = Some (JArr its)" "its \<noteq> []"
    "await (readJsonOrEmpty (PRODUCTS_FILE d)) = Some products" "check_items E products 0 its = Some []"
  using assms unfolding valid_submission_def
  by (cases body) (auto split: option.splits jsval.splits)

lemma post_carts_try_valid:
  assumes "valid_submission E d body"
  shows "\<exists>s. get_prop body ''customer_id'' = Some (JStr s) \<and> trim s \<noteq> [] \<and>
     post_carts_try E e d body = persist_cart E e d body (JStr s) (items_of body)"
proof -
  from assms obtain kvs s its products where f: "body = JObj kvs" "get_prop body ''customer_id'' = Some (JStr s)" "trim s \<noteq> []"
    "get_prop body ''items'' = Some (JArr its)" "its \<noteq> []"
    "await (readJsonOrEmpty (PRODUCTS_FILE d)) = Some products" "check_items E products 0 its = Some []"
    by (rule valid_submission_fields)
  from f(3) have "s \<noteq> []" by (auto simp: trim_def)
  with f show ?thesis
    by (simp add: post_carts_try_def items_of_def)
qed

lemma persist_cart_eq:
  assumes cs: "stored_carts d = Some cs"
    and body: "body = JObj kvs"
    and idx: "js_findIndex (cart_id_is (resolved_cart_id e body)) cs = Some idx"
    and items: "store_items E its = Some items"
  shows "\<exists>created_at.
     (if 0 \<le> idx then get_prop (cs ! nat idx) ''created_at'' = Some created_at
      else created_at = JStr (toISOString (Date_createdAt e))) \<and>
     persist_cart E e d body customer_id its =
       Some (saved_response (0 \<le> idx) (resolved_cart_id e body),
             d\<lparr>CARTS_FILE := Holding (JArr
                (let c = cart_record (resolved_cart_id e body) customer_id items created_at
                           (toISOString (Date_createdAt e)) (toISOString (Date_now e + seven_days))
                 in if 0 \<le> idx then cs[nat idx := c] else cs @ [c]))\<rparr>)"
proof (cases "0 \<le> idx")
  case True
  from findIndex_present [OF idx True] have "cart_id_is (resolved_cart_id e body) (cs ! nat idx) = Some True" by simp
  then obtain v where "get_prop (cs ! nat idx) ''cart_id'' = Some v"
    by (auto simp: cart_id_is_def split: Option.bind_splits)
  then obtain w where w: "get_prop (cs ! nat idx) ''created_at'' = Some w"
    by (cases "cs ! nat idx") auto
  from cs obtain cv where cv: "await (readJsonOrEmpty (CARTS_FILE d)) = Some cv" "as_array cv = Some cs"
    by (auto simp: stored_carts_def split: Option.bind_splits)
  show ?thesis
    using True w cv idx items body
    by (simp add: persist_cart_def resolved_cart_id_def saved_response_def cart_record_def
        writeJson_carts_def seven_days_def Let_def)
next
  case False
  from cs obtain cv where cv: "await (readJsonOrEmpty (CARTS_FILE d)) = Some cv" "as_array cv = Some cs"
    by (auto simp: stored_carts_def split: Option.bind_splits)
  show ?thesis
    using False cv idx items body
    by (simp add: persist_cart_def resolved_cart_id_def saved_response_def cart_record_def
        writeJson_carts_def seven_days_def Let_def)
qed

lemma post_carts_valid:
  assumes valid: "valid_submission E d body"
    and cs: "stored_carts d = Some cs"
    and idx: "js_findIndex (cart_id_is (resolved_cart_id e body)) cs = Some idx"
  shows "\<exists>s items created_at.
     get_prop body ''customer_id'' = Some (JStr s) \<and> trim s \<noteq> [] \<and>
     store_items E (items_of body) = Some items \<and>
     (if 0 \<le> idx then get_prop (cs ! nat idx) ''created_at'' = Some created_at
      else created_at = JStr (toISOString (Date_createdAt e))) \<and>
     post_carts E e d body =
       (saved_response (0 \<le> idx) (resolved_cart_id e body),
        d\<lparr>CARTS_FILE := Holding (JArr
           (let c = cart_record (resolved_cart_id e body) (JStr s) items created_at
                      (toISOString (Date_createdAt e)) (toISOString (Date_now e + seven_days))
            in if 0 \<le> idx then cs[nat idx := c] else cs @ [c]))\<rparr>)"
proof -
  from post_carts_try_valid [OF valid, of e] obtain s where
    s: "get_prop body ''customer_id'' = Some (JStr s)" "trim s \<noteq> []"
    and tr: "post_carts_try E e d body = persist_cart E e d body (JStr s) (items_of body)"
    by blast
  from valid obtain kvs its products where body: "body = JObj kvs"
    and its: "get_prop body ''items'' = Some (JArr its)"
    and chk: "check_items E products 0 its = Some []"
    by (rule valid_submission_fields)
  from its have io: "items_of body = its" by (simp add: items_of_def)
  from check_items_valid [OF chk] io obtain items where
    items: "store_items E (items_of body) = Some items" by auto
  from persist_cart_eq [OF cs body idx items, of "JStr s"] obtain created_at where
    c: "if 0 \<le> idx then get_prop (cs ! nat idx) ''created_at'' = Some created_at
        else created_at = JStr (toISOString (Date_createdAt e))"
    and p: "persist_cart E e d body (JStr s) (items_of body) =
       Some (saved_response (0 \<le> idx) (resolved_cart_id e body),
             d\<lparr>CARTS_FILE := Holding (JArr
                (let c = cart_record (resolved_cart_id e body) (JStr s) items created_at
                           (toISOString (Date_createdAt e)) (toISOString (Date_now e + seven_days))
                 in if 0 \<le> idx then cs[nat idx := c] else cs @ [c]))\<rparr>)"
    by blast
  from tr p have "post_carts E e d body =
       (saved_response (0 \<le> idx) (resolved_cart_id e body),
        d\<lparr>CARTS_FILE := Holding (JArr
           (let c = cart_record (resolved_cart_id e body) (JStr s) items created_at
                      (toISOString (Date_createdAt e)) (toISOString (Date_now e + seven_days))
            in if 0 \<le> idx then cs[nat idx := c] else cs @ [c]))\<rparr>)"
    by (simp add: post_carts_def)
  with s items c show ?thesis by blast
qed

lemma persist_cart_reads:
  assumes "persist_cart E e d body c its = Some x" "body = JObj kvs"
  shows "\<exists>cs idx. stored_carts d = Some cs \<and>
           js_findIndex (cart_id_is (resolved_cart_id e body)) cs = Some idx"
  using assms
  by (auto simp: persist_cart_def stored_carts_def resolved_cart_id_def Let_def
      split: Option.bind_splits)

lemma post_carts_accepted:
  assumes "status (fst (post_carts E e d body)) = 200 \<or> status (fst (post_carts E e d body)) = 201"
  shows "valid_submission E d body \<and>
         (\<exists>cs idx. stored_carts d = Some cs \<and>
            js_findIndex (cart_id_is (resolved_cart_id e body)) cs = Some idx)"
proof -
  from assms obtain x where x: "post_carts_try E e d body = Some x"
    by (auto simp: post_carts_def internal_server_error_def split: option.splits)
  with assms have st: "status (fst x) = 200 \<or> status (fst x) = 201"
    by (simp add: post_carts_def)
  show ?thesis
  proof (cases body)
    case (JObj kvs)
    from x st JObj obtain s its products where
      s: "get_prop body ''customer_id'' = Some (JStr s)" "trim s \<noteq> []"
      and its: "get_prop body ''items'' = Some (JArr its)" "its \<noteq> []"
      and pr: "await (readJsonOrEmpty (PRODUCTS_FILE d)) = Some products"
      and chk: "check_items E products 0 its = Some []"
      and per: "persist_cart E e d body (JStr s) its = Some x"
      by (auto simp: post_carts_try_def failure_def Let_def
          split: option.splits Option.bind_splits if_splits jsval.splits)
    from s its pr chk have "valid_submission E d body"
      by (simp add: valid_submission_def)
    with persist_cart_reads [OF per JObj] show ?thesis by simp
  qed (use x st in \<open>auto simp: post_carts_try_def failure_def Let_def split: if_splits\<close>)
qed

lemma stored_carts_written [simp]:
  "stored_carts (d\<lparr>CARTS_FILE := Holding (JArr xs)\<rparr>) = Some xs"
  by (simp add: stored_carts_def readJsonOrEmpty_def)

lemma cart_record_fields [simp]:
  "get_prop (cart_record cid cu its cr up ex) ''cart_id'' = Some (JStr cid)"
  "get_prop (cart_record cid cu its cr up ex) ''customer_id'' = Some cu"
  "get_prop (cart_record cid cu its cr up ex) ''items'' = Some (JArr its)"
  "get_prop (cart_record cid cu its cr up ex) ''status'' = Some (JStr ''saved'')"
  "get_prop (cart_record cid cu its cr up ex) ''created_at'' = Some cr"
  "get_prop (cart_record cid cu its cr up ex) ''updated_at'' = Some (JStr up)"
  "get_prop (cart_record cid cu its cr up ex) ''expires_at'' = Some (JStr ex)"
  by (simp_all add: cart_record_def)

lemma cart_id_is_record [simp]:
  "cart_id_is cid (cart_record cid' cu its cr up ex) = Some (cid' = cid)"
  by (simp add: cart_id_is_def)

lemma cart_id_of_record [simp]:
  "cart_id_of (cart_record cid cu its cr up ex) = Some cid"
  by (simp add: cart_id_of_def)

lemma cart_id_is_iff:
  "cart_id_is cid c = Some b \<Longrightarrow> b = (cart_id_of c = Some cid)"
proof -
  assume a: "cart_id_is cid c = Some b"
  then obtain v where v: "get_prop c ''cart_id'' = Some v" and b: "b = strict_eq v (JStr cid)"
    by (auto simp: cart_id_is_def split: Option.bind_splits)
  show ?thesis using v b by (cases v) (auto simp: cart_id_of_def)
qed

lemma saved_response_fields [simp]:
  "status (saved_response ex cid) = (if ex then 200 else 201)"
  "get_prop (json (saved_response ex cid)) ''cart_id'' = Some (JStr cid)"
  by (simp_all add: saved_response_def)

subsection \<open>Auxiliary facts: cart ids of the stored records\<close>

lemma cart_ids_Cons:
  "cart_ids (c # cs) = (case cart_id_of c of None \<Rightarrow> cart_ids cs | Some s \<Rightarrow> s # cart_ids cs)"
  by (simp add: cart_ids_def List.map_filter_simps split: option.splits)

lemma cart_ids_Nil [simp]: "cart_ids [] = []"
  by (simp add: cart_ids_def List.map_filter_simps)



lemma set_cart_ids: "set (cart_ids cs) = {s. \<exists>c\<in>set cs. cart_id_of c = Some s}"
  by (induction cs) (auto simp: cart_ids_Cons split: option.splits)

lemma cart_id_is_record_like:
  "c \<noteq> JNull \<Longrightarrow> c \<noteq> JUndefined \<Longrightarrow> cart_id_is cid c = Some (cart_id_of c = Some cid)"
proof -
  assume "c \<noteq> JNull" "c \<noteq> JUndefined"
  then obtain v where v: "get_prop c ''cart_id'' = Some v" by (cases c) auto
  then show ?thesis by (cases v) (auto simp: cart_id_is_def cart_id_of_def)
qed

lemma findIndex_records:
  assumes "\<forall>c\<in>set cs. c \<noteq> JNull \<and> c \<noteq> JUndefined"
  shows "js_findIndex (cart_id_is cid) cs =
     Some (if cid \<in> set (cart_ids cs)
           then int (length (takeWhile (\<lambda>c. cart_id_of c \<noteq> Some cid) cs)) else - 1)"
  using assms
proof (induction cs)
  case Nil
  then show ?case by simp
next
  case (Cons c cs)
  then have c: "cart_id_is cid c = Some (cart_id_of c = Some cid)"
    by (simp add: cart_id_is_record_like)
  from Cons have IH: "js_findIndex (cart_id_is cid) cs =
     Some (if cid \<in> set (cart_ids cs)
           then int (length (takeWhile (\<lambda>c. cart_id_of c \<noteq> Some cid) cs)) else - 1)" by simp
  show ?case using c IH by (auto simp: set_cart_ids)
qed

subsection \<open>Auxiliary facts: GET /carts on a store of records\<close>

lemma customer_is_record_like:
  "c \<noteq> JNull \<Longrightarrow> c \<noteq> JUndefined \<Longrightarrow> customer_is u c \<noteq> None"
  by (cases c) (auto simp: customer_is_def)

lemma js_filter_total:
  "\<forall>c\<in>set cs. p c \<noteq> None \<Longrightarrow> js_filter p cs = Some (filter (\<lambda>c. p c = Some True) cs)"
  by (induction cs) auto

lemma get_carts_records:
  assumes store: "stored_carts d = Some cs"
    and records: "\<forall>c\<in>set cs. c \<noteq> JNull \<and> c \<noteq> JUndefined"
    and given: "truthy u"
  shows "get_carts d u = carts_response (filter (\<lambda>c. customer_is u c = Some True) cs)"
proof -
  from records have "\<forall>c\<in>set cs. customer_is u c \<noteq> None"
    by (simp add: customer_is_record_like)
  from js_filter_total [OF this]
  have f: "js_filter (customer_is u) cs = Some (filter (\<lambda>c. customer_is u c = Some True) cs)" .
  from store obtain v where "await (readJsonOrEmpty (CARTS_FILE d)) = Some v" "as_array v = Some cs"
    by (auto simp: stored_carts_def split: Option.bind_splits)
  with f given show ?thesis
    by (simp add: get_carts_def get_carts_try_def carts_response_def)
qed

lemma trim_nonempty: "trim s \<noteq> [] \<Longrightarrow> s \<noteq> []"
  by (auto simp: trim_def)

subsection \<open>Auxiliary facts: find, and GET /products/:id\<close>

lemma id_is_truthy: "id_is E n p = Some True \<Longrightarrow> truthy p"
  by (cases p) (auto simp: id_is_def split: Option.bind_splits)

lemma js_find_first:
  "i < length xs \<Longrightarrow> p (xs ! i) = Some True \<Longrightarrow> \<forall>j<i. p (xs ! j) = Some False \<Longrightarrow>
     js_find p xs = Some (xs ! i)"
proof (induction xs arbitrary: i)
  case Nil
  then show ?case by simp
next
  case (Cons x xs)
  show ?case
  proof (cases i)
    case 0
    with Cons.prems show ?thesis by simp
  next
    case (Suc k)
    with Cons.prems have "k < length xs" "p (xs ! k) = Some True" "\<forall>j<k. p (xs ! j) = Some False"
      "p x = Some False" by auto
    with Cons.IH [of k] Suc show ?thesis by simp
  qed
qed

lemma js_find_none: "\<forall>x\<in>set xs. p x = Some False \<Longrightarrow> js_find p xs = Some JUndefined"
  by (induction xs) auto

lemma takeWhile_stops: "\<exists>x\<in>set xs. \<not> P x \<Longrightarrow> length (takeWhile P xs) < length xs"
  by (induction xs) auto

lemma get_product_found:
  assumes cat: "catalog d = Some ps"
    and i: "i < length ps" and m: "id_is E (StringToNumber E params_id) (ps ! i) = Some True"
    and before: "\<forall>j<i. id_is E (StringToNumber E params_id) (ps ! j) = Some False"
  shows "get_product E d params_id = product_response (ps ! i)"
proof -
  from cat obtain v where v: "await (readJsonOrEmpty (PRODUCTS_FILE d)) = Some v" "as_array v = Some ps"
    by (auto simp: catalog_def split: Option.bind_splits)
  from js_find_first [OF i m before] id_is_truthy [OF m] v show ?thesis
    by (simp add: get_product_def get_product_try_def product_response_def)
qed

lemma get_product_missing:
  assumes cat: "catalog d = Some ps"
    and no: "\<forall>p\<in>set ps. id_is E (StringToNumber E params_id) p = Some False"
  shows "get_product E d params_id = failure 404 ''product_not_found''"
proof -
  from cat obtain v where v: "await (readJsonOrEmpty (PRODUCTS_FILE d)) = Some v" "as_array v = Some ps"
    by (auto simp: catalog_def split: Option.bind_splits)
  from js_find_none [OF no] v show ?thesis
    by (simp add: get_product_def get_product_try_def)
qed

subsection \<open>Auxiliary facts: the form of a generated cart id\<close>

lemma length_digits [simp]: "length (digits w n) = w"
  by (induction w arbitrary: n) simp_all

lemma digit_is_digit: "digit n \<in> set ''0123456789''"
proof -
  have "n mod 10 < length ''0123456789''" by simp
  then show ?thesis unfolding digit_def by (rule nth_mem)
qed

lemma digit_not_dash [simp]: "digit n \<noteq> CHR ''-''"
  using digit_is_digit [of n] by auto

lemma filter_digits [simp]: "filter (\<lambda>c. c \<noteq> CHR ''-'') (digits w n) = digits w n"
  by (induction w arbitrary: n) simp_all

lemma date_of_toISOString:
  assumes "0 \<le> civil_year (utc_day t)" "civil_year (utc_day t) \<le> 9999"
  shows "filter (\<lambda>c. c \<noteq> CHR ''-'') (take 10 (toISOString t)) = yyyymmdd t"
  using assms by (simp add: toISOString_def year_string_def yyyymmdd_def)

lemma decimal_four_digits:
  assumes "1000 \<le> n" "n \<le> 9999"
  shows "decimal_nat n = digits 4 n"
proof -
  have a: "decimal_nat n = decimal_nat (n div 10) @ [digit n]"
    using assms by (subst decimal_nat.simps) simp
  have b: "decimal_nat (n div 10) = decimal_nat (n div 10 div 10) @ [digit (n div 10)]"
    using assms by (subst decimal_nat.simps) simp
  have c: "decimal_nat (n div 10 div 10) = decimal_nat (n div 10 div 10 div 10) @ [digit (n div 10 div 10)]"
    using assms by (subst decimal_nat.simps) simp
  have d: "decimal_nat (n div 10 div 10 div 10) = [digit (n div 10 div 10 div 10)]"
    using assms by (subst decimal_nat.simps) simp
  show ?thesis by (simp only: a b c d digits4 append.simps)
qed

lemma random_suffix:
  assumes "0 \<le> (r::rat)" "r < 1"
  shows "1000 \<le> \<lfloor>r * 9000\<rfloor> + 1000 \<and> \<lfloor>r * 9000\<rfloor> + 1000 \<le> 9999"
proof -
  from assms have "0 \<le> r * 9000" "r * 9000 < 9000" by simp_all
  then have "0 \<le> \<lfloor>r * 9000\<rfloor>" "\<lfloor>r * 9000\<rfloor> < 9000" by (simp_all add: floor_less_iff)
  then show ?thesis by simp
qed

lemma generateCartId_form:
  assumes random: "0 \<le> Math_random e" "Math_random e < 1"
    and year: "0 \<le> civil_year (utc_day (Date_generateCartId e))"
      "civil_year (utc_day (Date_generateCartId e)) \<le> 9999"
  shows "generated_form e (generateCartId e)"
proof -
  let ?rnd = "\<lfloor>Math_random e * 9000\<rfloor> + 1000"
  from random_suffix [OF random] have rnd: "1000 \<le> ?rnd" "?rnd \<le> 9999" by simp_all
  then have n: "1000 \<le> nat ?rnd" "nat ?rnd \<le> 9999" by linarith+
  from rnd have nn: "\<not> ?rnd < 0" by linarith
  have "decimal ?rnd = decimal_nat (nat ?rnd)" by (simp only: decimal_def nn if_False)
  with decimal_four_digits [OF n] have dec: "decimal ?rnd = digits 4 (nat ?rnd)" by simp
  have "generateCartId e = ''CART-'' @ yyyymmdd (Date_generateCartId e) @ ''-'' @ digits 4 (nat ?rnd)"
    by (simp only: generateCartId_def Let_def date_of_toISOString [OF year] dec)
  moreover from n have "nat ?rnd \<in> {1000..9999}" by simp
  ultimately show ?thesis unfolding generated_form_def by blast
qed

subsection \<open>Auxiliary facts: the handlers on the examples\<close>

lemmas eval_defs =
  handler_defs example_defs valid_submission_def stored_carts_def resolved_cart_id_def
  items_of_def cart_record_def saved_response_def toISOString_examples
  generateCartId_example [unfolded env1_def] trim_examples catalog_def cart_id_of_def
  cart_ids_def

lemma post_new:
  "post_carts example_engine env1 disk12 body_new =
     (saved_response False ''CART-20231114-5500'', disk_saved)"
  by (simp add: eval_defs)



lemma post_other_customer:
  "post_carts example_engine env2 disk_saved body_other_customer =
    (saved_response True ''CART-20231114-5500'',
     disk12\<lparr>CARTS_FILE := Holding (JArr [
       cart_record ''CART-20231114-5500'' (JStr ''u2'') [item 2 3]
         (JStr ''2023-11-14T22:13:20.000Z'') ''2023-11-14T22:23:20.000Z''
         ''2023-11-21T22:23:20.000Z''])\<rparr>)"
  by (simp add: eval_defs)

lemma post_padded_customer:
  "post_carts example_engine env1 disk12 body_padded_customer =
    (saved_response False ''CART-20231114-5500'',
     disk12\<lparr>CARTS_FILE := Holding (JArr [
       cart_record ''CART-20231114-5500'' (JStr '' u1 '') [item 1 2]
         (JStr ''2023-11-14T22:13:20.000Z'') ''2023-11-14T22:13:20.000Z''
         ''2023-11-21T22:13:20.000Z''])\<rparr>)"
  by (simp add: eval_defs)

lemma catalog12: "catalog disk12 = Some [product1, product2]"
  by (simp add: catalog_def disk12_def readJsonOrEmpty_def)

lemma number_examples: "StringToNumber example_engine ''2'' = Fin 2"
  "StringToNumber example_engine ''9'' = Fin 9"
  by (simp_all add: example_engine_def digits_number_def)

lemma post_padded_cart_id:
  "post_carts example_engine env1 disk12 body_padded_cart_id =
    (saved_response False ''c1'',
     disk12\<lparr>CARTS_FILE := Holding (JArr [
       cart_record ''c1'' (JStr ''u1'') [item 1 2]
         (JStr ''2023-11-14T22:13:20.000Z'') ''2023-11-14T22:13:20.000Z''
         ''2023-11-21T22:13:20.000Z''])\<rparr>)"
  by (simp add: eval_defs)

lemma year_example: "civil_year (utc_day (Date_generateCartId env1)) = 2023"
  by (simp add: env1_def date_defs)

lemma generateCartId_example_tick: "generateCartId env_tick = ''CART-20231114-5500''"
  by (simp add: generateCartId_def env_tick_def toISOString_examples decimal_def digit_def)

lemma generateCartId_example_same_suffix:
  "generateCartId env_same_suffix = ''CART-20231114-5500''"
  by (simp add: generateCartId_def env_same_suffix_def toISOString_examples decimal_def
      digit_def)

lemma post_same_suffix:
  "post_carts example_engine env_same_suffix disk_saved body_new =
    (saved_response True ''CART-20231114-5500'',
     disk12\<lparr>CARTS_FILE := Holding (JArr [
       cart_record ''CART-20231114-5500'' (JStr ''u1'') [item 1 2]
         (JStr ''2023-11-14T22:13:20.000Z'') ''2023-11-14T22:23:20.000Z''
         ''2023-11-21T22:23:20.000Z''])\<rparr>)"
  by (simp add: eval_defs generateCartId_example_same_suffix [unfolded env_same_suffix_def])

subsection \<open>POST /carts: submitting the same cart id twice\<close>

text \<open>
  Claim C1, amended. POST /carts is idempotent by cart id, for a cart id that is not yet
  in the store: a valid submission whose resolved cart id no stored record has is answered
  201; a second valid submission that resolves to the same cart id is answered 200, with
  the same cart id. After it the store holds the carts it held before and exactly one
  record with that cart id, whose \<^verbatim>\<open>created_at\<close> is the time of the first submission and
  whose \<^verbatim>\<open>updated_at\<close> and \<^verbatim>\<open>expires_at\<close> are those of the second.
\<close>

theorem resubmission_keeps_one_cart:
  assumes valid1: "valid_submission E d0 body1"
    and store: "stored_carts d0 = Some cs"
    and fresh: "\<forall>c\<in>set cs. cart_id_is (resolved_cart_id e1 body1) c = Some False"
    and first: "post_carts E e1 d0 body1 = (r1, d1)"
    and valid2: "valid_submission E d1 body2"
    and same: "resolved_cart_id e2 body2 = resolved_cart_id e1 body1"
    and second: "post_carts E e2 d1 body2 = (r2, d2)"
  shows "\<exists>c. status r1 = 201 \<and> status r2 = 200
     \<and> get_prop (json r1) ''cart_id'' = Some (JStr (resolved_cart_id e1 body1))
     \<and> get_prop (json r2) ''cart_id'' = Some (JStr (resolved_cart_id e1 body1))
     \<and> stored_carts d2 = Some (cs @ [c])
     \<and> filter (\<lambda>x. cart_id_of x = Some (resolved_cart_id e1 body1)) (cs @ [c]) = [c]
     \<and> get_prop c ''created_at'' = Some (JStr (toISOString (Date_createdAt e1)))
     \<and> get_prop c ''updated_at'' = Some (JStr (toISOString (Date_createdAt e2)))
     \<and> get_prop c ''expires_at'' = Some (JStr (toISOString (Date_now e2 + seven_days)))"
proof -
  let ?cid = "resolved_cart_id e1 body1"
  from findIndex_none [OF fresh]
  have idx1: "js_findIndex (cart_id_is ?cid) cs = Some (- 1)" .
  from post_carts_valid [OF valid1 store idx1] first
  obtain s1 items1 where
    r1: "r1 = saved_response False ?cid"
    and d1: "d1 = d0\<lparr>CARTS_FILE := Holding (JArr (cs @
        [cart_record ?cid (JStr s1) items1 (JStr (toISOString (Date_createdAt e1)))
           (toISOString (Date_createdAt e1)) (toISOString (Date_now e1 + seven_days))]))\<rparr>"
    by (auto simp: Let_def)
  define c1 where "c1 = cart_record ?cid (JStr s1) items1 (JStr (toISOString (Date_createdAt e1)))
           (toISOString (Date_createdAt e1)) (toISOString (Date_now e1 + seven_days))"
  from d1 have store1: "stored_carts d1 = Some (cs @ [c1])" by (simp add: c1_def)
  have "js_findIndex (cart_id_is ?cid) (cs @ [c1]) = Some (int (length cs))"
  proof (rule findIndex_first)
    show "length cs < length (cs @ [c1])" by simp
    show "cart_id_is ?cid ((cs @ [c1]) ! length cs) = Some True" by (simp add: c1_def)
    show "\<forall>j<length cs. cart_id_is ?cid ((cs @ [c1]) ! j) = Some False"
      using fresh by (simp add: nth_append)
  qed
  with same have idx2:
    "js_findIndex (cart_id_is (resolved_cart_id e2 body2)) (cs @ [c1]) = Some (int (length cs))"
    by simp
  from post_carts_valid [OF valid2 store1 idx2] second same
  obtain s2 items2 created_at where
    cr: "get_prop ((cs @ [c1]) ! length cs) ''created_at'' = Some created_at"
    and r2: "r2 = saved_response True ?cid"
    and d2: "d2 = d1\<lparr>CARTS_FILE := Holding (JArr ((cs @ [c1])[length cs :=
        cart_record ?cid (JStr s2) items2 created_at
           (toISOString (Date_createdAt e2)) (toISOString (Date_now e2 + seven_days))]))\<rparr>"
    by (auto simp: Let_def)
  from cr have created: "created_at = JStr (toISOString (Date_createdAt e1))"
    by (simp add: c1_def)
  define c2 where "c2 = cart_record ?cid (JStr s2) items2 created_at
           (toISOString (Date_createdAt e2)) (toISOString (Date_now e2 + seven_days))"
  from d2 have store2: "stored_carts d2 = Some (cs @ [c2])" by (simp add: c2_def)
  have none: "filter (\<lambda>x. cart_id_of x = Some ?cid) cs = []"
    using fresh cart_id_is_iff by (fastforce simp: filter_empty_conv)
  have one: "filter (\<lambda>x. cart_id_of x = Some ?cid) (cs @ [c2]) = [c2]"
    using none by (simp add: c2_def)
  show ?thesis
    using r1 r2 store2 one created by (intro exI [of _ c2]) (simp add: c2_def)
qed

text \<open>
  The scenario of the specification: a first submission without a cart id, and a second
  one, ten minutes later, with the cart id that the first returned.
\<close>

theorem resubmission_keeps_one_cart_witness:
  "post_carts example_engine env1 disk12 body_new = (saved_response False ''CART-20231114-5500'', disk_saved)
   \<and> status (fst (post_carts example_engine env2 disk_saved body_again)) = 200
   \<and> (\<exists>c. stored_carts (snd (post_carts example_engine env2 disk_saved body_again)) = Some [c]
         \<and> get_prop c ''created_at'' = Some (JStr ''2023-11-14T22:13:20.000Z'')
         \<and> get_prop c ''updated_at'' = Some (JStr ''2023-11-14T22:23:20.000Z'')
         \<and> get_prop c ''expires_at'' = Some (JStr ''2023-11-21T22:23:20.000Z''))"
proof -
  have valid1: "valid_submission example_engine disk12 body_new"
    by (simp add: eval_defs)
  have store: "stored_carts disk12 = Some []"
    by (simp add: eval_defs)
  have fresh: "\<forall>c\<in>set []. cart_id_is (resolved_cart_id env1 body_new) c = Some False"
    by simp
  have first: "post_carts example_engine env1 disk12 body_new =
      (saved_response False ''CART-20231114-5500'', disk_saved)"
    by (simp add: eval_defs)
  have valid2: "valid_submission example_engine disk_saved body_again"
    by (simp add: eval_defs)
  have same: "resolved_cart_id env2 body_again = resolved_cart_id env1 body_new"
    by (simp add: eval_defs)
  have second: "post_carts example_engine env2 disk_saved body_again =
      (fst (post_carts example_engine env2 disk_saved body_again),
       snd (post_carts example_engine env2 disk_saved body_again))"
    by simp
  have dates: "toISOString (Date_createdAt env1) = ''2023-11-14T22:13:20.000Z''"
    "toISOString (Date_createdAt env2) = ''2023-11-14T22:23:20.000Z''"
    "toISOString (Date_now env2 + seven_days) = ''2023-11-21T22:23:20.000Z''"
    by (simp_all add: env1_def env2_def seven_days_def toISOString_examples)
  from resubmission_keeps_one_cart [OF valid1 store fresh first valid2 same second]
  show ?thesis using first dates by auto
qed

text \<open>
  Claim C1 as it is stated holds for every valid submission. It does not: the handler
  answers 200 and keeps the old \<^verbatim>\<open>created_at\<close> whenever the resolved cart id is already
  stored, and \<^verbatim>\<open>generateCartId\<close> does not look in the store. Here the store holds the cart
  saved at 22:13:20, and a valid submission without a cart id, at 22:23:20 on the same
  day, generates the same id: this first call is answered 200, not 201, and the one
  stored record keeps \<^verbatim>\<open>created_at\<close> 22:13:20, which is not the time of the call.
\<close>

theorem first_call_on_stored_id_counterexample:
  "valid_submission example_engine disk_saved body_new
   \<and> stored_carts disk_saved = Some [cart_u1]
   \<and> status (fst (post_carts example_engine env_same_suffix disk_saved body_new)) = 200
   \<and> status (fst (post_carts example_engine env_same_suffix disk_saved body_new)) \<noteq> 201
   \<and> stored_carts (snd (post_carts example_engine env_same_suffix disk_saved body_new)) =
       Some [cart_record ''CART-20231114-5500'' (JStr ''u1'') [item 1 2]
               (JStr ''2023-11-14T22:13:20.000Z'') ''2023-11-14T22:23:20.000Z''
               ''2023-11-21T22:23:20.000Z'']
   \<and> toISOString (Date_createdAt env_same_suffix) = ''2023-11-14T22:23:20.000Z''
   \<and> ''2023-11-14T22:13:20.000Z'' \<noteq> ''2023-11-14T22:23:20.000Z''"
proof -
  have valid: "valid_submission example_engine disk_saved body_new"
    by (simp add: eval_defs)
  have store: "stored_carts disk_saved = Some [cart_u1]"
    by (simp add: disk_saved_def)
  have time: "toISOString (Date_createdAt env_same_suffix) = ''2023-11-14T22:23:20.000Z''"
    by (simp add: env_same_suffix_def toISOString_examples)
  from valid store time show ?thesis by (simp add: post_same_suffix)
qed

subsection \<open>POST /carts: the report of the invalid items\<close>

text \<open>
  When no pass of the loop throws, the loop reports every item that a pass rejects, in the
  order of the items: \<open>verdict j\<close> is what the pass on item \<open>j\<close> pushes. An entry carries
  the index of its item and one of three reasons, and with \<^verbatim>\<open>product_not_found\<close> the
  number that \<^verbatim>\<open>product_id\<close> converts to.
\<close>

lemma map_filter_of_map:
  "List.map_filter f (map g xs) = List.map_filter (\<lambda>x. f (g x)) xs"
  by (induction xs) (simp_all split: option.splits)

lemma map_filter_upt_Suc:
  "List.map_filter f [0..<Suc n] =
     (case f 0 of None \<Rightarrow> [] | Some e \<Rightarrow> [e]) @ List.map_filter (\<lambda>j. f (Suc j)) [0..<n]"
proof -
  have "[0..<Suc n] = 0 # map Suc [0..<n]"
    by (simp only: upt_conv_Cons [of 0 "Suc n"] map_Suc_upt)
  then show ?thesis
    by (simp add: map_filter_of_map split: option.splits)
qed

lemma check_items_reports_all:
  assumes "\<forall>j<length its. check_item E products (i + j) (its ! j) = Some (verdict j)"
  shows "check_items E products i its = Some (List.map_filter verdict [0..<length its])"
  using assms
proof (induction its arbitrary: i verdict)
  case Nil
  then show ?case by (simp add: List.map_filter_simps)
next
  case (Cons it its)
  from Cons.prems have h: "check_item E products i it = Some (verdict 0)" by force
  have "\<forall>j<length its. check_item E products (Suc i + j) (its ! j) = Some (verdict (Suc j))"
  proof (intro allI impI)
    fix j assume "j < length its"
    then have "Suc j < length (it # its)" by simp
    with Cons.prems have "check_item E products (i + Suc j) ((it # its) ! Suc j) = Some (verdict (Suc j))"
      by blast
    then show "check_item E products (Suc i + j) (its ! j) = Some (verdict (Suc j))" by simp
  qed
  from Cons.IH [OF this]
  have t: "check_items E products (Suc i) its =
      Some (List.map_filter (\<lambda>j. verdict (Suc j)) [0..<length its])" .
  have len: "length (it # its) = Suc (length its)" by simp
  show ?case
    unfolding len map_filter_upt_Suc using h t by (simp split: option.splits del: upt_Suc)
qed

lemma check_item_entry:
  assumes "check_item E products i it = Some (Some entry)"
  shows "get_prop entry ''index'' = Some (JNum (Fin (of_nat i)))
     \<and> (get_prop entry ''reason'' = Some (JStr ''product_id and quantity are required'')
        \<or> get_prop entry ''reason'' = Some (JStr ''quantity must be a positive number'')
        \<or> (get_prop entry ''reason'' = Some (JStr ''product_not_found'')
            \<and> (\<exists>v. get_prop it ''product_id'' = Some v
                  \<and> Number E v = Some (case get_prop entry ''product_id'' of Some (JNum n) \<Rightarrow> n))))"
  using assms
  by (auto simp: check_item_def split: Option.bind_splits if_splits)

text \<open>The scenario of the specification: product 9 is not in the catalog, and the answer
  is 400 with one entry, for index 1.\<close>

lemma unknown_product_scenario:
  "post_carts example_engine env1 disk12 body_unknown_product =
     (\<lparr>status = 400,
       json = JObj [(''success'', JBool False), (''error'', JStr ''invalid_items''),
                    (''details'', JArr [JObj [(''index'', JNum (Fin 1)),
                                              (''reason'', JStr ''product_not_found''),
                                              (''product_id'', JNum (Fin 9))]])]\<rparr>,
      disk12)"
  by (simp add: eval_defs)

text \<open>
  Claim C2 says that every invalid item contributes an entry to the details, and that the
  answer is then 400 \<^verbatim>\<open>invalid_items\<close> with all of them. An item that is \<^verbatim>\<open>null\<close> has no
  \<^verbatim>\<open>product_id\<close>, and the loop does not report it: reading \<^verbatim>\<open>it.product_id\<close> throws, and
  the request is answered 500. Here item 0 names the unknown product 9, which the loop
  reports, and item 1 is \<^verbatim>\<open>null\<close>: the answer carries no details.
\<close>

theorem null_item_is_answered_500:
  "post_carts example_engine env1 disk12 body_null_item = (internal_server_error, disk12)
   \<and> status (fst (post_carts example_engine env1 disk12 body_null_item)) = 500"
  by (simp add: eval_defs)

text \<open>The two passes of the loop on that request: an entry for item 0, an exception on
  item 1.\<close>

lemma null_item_passes:
  "check_item example_engine (JArr [product1, product2]) 0 (item 9 1) =
     Some (Some (JObj [(''index'', JNum (Fin 0)), (''reason'', JStr ''product_not_found''),
                       (''product_id'', JNum (Fin 9))]))"
  "check_item example_engine (JArr [product1, product2]) 1 JNull = None"
  by (simp_all add: eval_defs)

subsection \<open>GET /products\<close>

text \<open>
  Claim C3 says that GET /products answers with a success listing the products of the
  catalog, truncated to the limit, and that a missing products file is an empty catalog.
  The handler does not: whatever the query and the files, the call of \<^verbatim>\<open>slice\<close> on the
  promise throws, and the answer is 500 \<^verbatim>\<open>internal_server_error\<close>.
\<close>

theorem get_products_always_fails:
  "get_products E d query_limit = internal_server_error
   \<and> status (get_products E d query_limit) = 500"
  by (simp add: get_products_def get_products_try_def slice_of_promise_def
      internal_server_error_def split: option.splits)

subsection \<open>POST /carts: the expiry date\<close>

text \<open>
  What an accepted POST /carts writes: \<^verbatim>\<open>updated_at\<close> is the clock read for
  \<^verbatim>\<open>createdAt\<close>, and \<^verbatim>\<open>expires_at\<close> is seven days after a second read of the clock,
  \<^verbatim>\<open>Date.now()\<close>.
\<close>

lemma written_cart_dates:
  assumes post: "post_carts E e d body = (r, d')"
    and ok: "status r = 200 \<or> status r = 201"
  shows "\<exists>c cs'. stored_carts d' = Some cs' \<and> c \<in> set cs'
     \<and> get_prop c ''cart_id'' = Some (JStr (resolved_cart_id e body))
     \<and> get_prop c ''updated_at'' = Some (JStr (toISOString (Date_createdAt e)))
     \<and> get_prop c ''expires_at'' = Some (JStr (toISOString (Date_now e + seven_days)))"
proof -
  let ?cid = "resolved_cart_id e body"
  from post ok have "status (fst (post_carts E e d body)) = 200
      \<or> status (fst (post_carts E e d body)) = 201" by simp
  from post_carts_accepted [OF this] obtain cs idx where valid: "valid_submission E d body"
    and store: "stored_carts d = Some cs"
    and idx: "js_findIndex (cart_id_is ?cid) cs = Some idx" by blast
  from post_carts_valid [OF valid store idx] post obtain s items created_at where
    w: "d' = d\<lparr>CARTS_FILE := Holding (JArr
         (let c = cart_record ?cid (JStr s) items created_at
                    (toISOString (Date_createdAt e)) (toISOString (Date_now e + seven_days))
          in if 0 \<le> idx then cs[nat idx := c] else cs @ [c]))\<rparr>"
    by auto
  define c where "c = cart_record ?cid (JStr s) items created_at
                    (toISOString (Date_createdAt e)) (toISOString (Date_now e + seven_days))"
  define cs' where "cs' = (if 0 \<le> idx then cs[nat idx := c] else cs @ [c])"
  from w have store': "stored_carts d' = Some cs'" by (simp add: cs'_def c_def Let_def)
  have mem: "c \<in> set cs'"
  proof (cases "0 \<le> idx")
    case True
    from findIndex_present [OF idx True] have "nat idx < length cs" by simp
    with True show ?thesis by (simp add: cs'_def set_update_memI)
  next
    case False
    then show ?thesis by (simp add: cs'_def)
  qed
  from store' mem show ?thesis by (intro exI [of _ c] exI [of _ cs']) (simp add: c_def)
qed

text \<open>When the two reads of the clock return the same instant, the dates are seven days
  apart.\<close>

lemma expires_at_with_a_still_clock:
  assumes post: "post_carts E e d body = (r, d')"
    and ok: "status r = 200 \<or> status r = 201"
    and still: "Date_now e = Date_createdAt e"
  shows "\<exists>c cs' t. stored_carts d' = Some cs' \<and> c \<in> set cs'
     \<and> get_prop c ''updated_at'' = Some (JStr (toISOString t))
     \<and> get_prop c ''expires_at'' = Some (JStr (toISOString (t + seven_days)))"
  using written_cart_dates [OF post ok] still by auto

text \<open>
  Claim C4 says that \<^verbatim>\<open>expires_at\<close> of every stored cart is \<^verbatim>\<open>updated_at\<close> plus exactly
  seven days. The two dates come from two reads of the clock. When the clock advances by
  one millisecond between them, the stored cart has \<^verbatim>\<open>updated_at\<close> 22:13:20.000 on
  2023-11-14 and \<^verbatim>\<open>expires_at\<close> 22:13:20.001 on 2023-11-21, one millisecond more than
  seven days later.
\<close>

theorem expires_at_after_a_clock_tick:
  "Date_now env_tick = Date_createdAt env_tick + 1
   \<and> post_carts example_engine env_tick disk12 body_new =
      (saved_response False ''CART-20231114-5500'',
       disk12\<lparr>CARTS_FILE := Holding (JArr [
         cart_record ''CART-20231114-5500'' (JStr ''u1'') [item 1 2]
           (JStr ''2023-11-14T22:13:20.000Z'') ''2023-11-14T22:13:20.000Z''
           ''2023-11-21T22:13:20.001Z''])\<rparr>)
   \<and> toISOString (Date_createdAt env_tick) = ''2023-11-14T22:13:20.000Z''
   \<and> toISOString (Date_createdAt env_tick + seven_days) = ''2023-11-21T22:13:20.000Z''
   \<and> ''2023-11-21T22:13:20.001Z'' \<noteq> ''2023-11-21T22:13:20.000Z''"
proof -
  have run: "post_carts example_engine env_tick disk12 body_new =
      (saved_response False ''CART-20231114-5500'',
       disk12\<lparr>CARTS_FILE := Holding (JArr [
         cart_record ''CART-20231114-5500'' (JStr ''u1'') [item 1 2]
           (JStr ''2023-11-14T22:13:20.000Z'') ''2023-11-14T22:13:20.000Z''
           ''2023-11-21T22:13:20.001Z''])\<rparr>)"
    by (simp add: eval_defs generateCartId_example_tick [unfolded env_tick_def])
  have dates: "Date_now env_tick = Date_createdAt env_tick + 1"
    "toISOString (Date_createdAt env_tick) = ''2023-11-14T22:13:20.000Z''"
    "toISOString (Date_createdAt env_tick + seven_days) = ''2023-11-21T22:13:20.000Z''"
    by (simp_all add: env_tick_def seven_days_def toISOString_examples)
  from run dates show ?thesis by simp
qed

subsection \<open>POST /carts: a rejected submission writes nothing\<close>

lemma persist_cart_status:
  "persist_cart E e d body c its = Some (r, d') \<Longrightarrow> status r = 200 \<or> status r = 201"
  by (auto simp: persist_cart_def Let_def split: Option.bind_splits if_splits)

text \<open>
  Claim C5: when POST /carts answers 400 (\<^verbatim>\<open>missing_customer_id\<close>, \<^verbatim>\<open>items_required\<close> or
  \<^verbatim>\<open>invalid_items\<close>), the files after the request are the files before it.
\<close>

theorem rejected_submission_writes_nothing:
  "status (fst (post_carts E e d req_body)) = 400 \<Longrightarrow> snd (post_carts E e d req_body) = d"
  by (auto simp: post_carts_def post_carts_try_def Let_def failure_def
      internal_server_error_def
      split: option.splits Option.bind_splits if_splits jsval.splits
      dest!: persist_cart_status)

text \<open>The submission with the unknown product 9 is answered 400, and the files stay.\<close>

theorem rejected_submission_writes_nothing_witness:
  "status (fst (post_carts example_engine env1 disk12 body_unknown_product)) = 400
   \<and> snd (post_carts example_engine env1 disk12 body_unknown_product) = disk12"
proof -
  have rejected: "status (fst (post_carts example_engine env1 disk12 body_unknown_product)) = 400"
    by (simp add: handler_defs example_defs)
  from rejected_submission_writes_nothing [OF rejected] rejected show ?thesis by simp
qed

subsection \<open>POST /carts: cart ids stay unique\<close>



subsection \<open>POST /carts: the cart id\<close>

text \<open>
  Claim C7, amended. An accepted POST /carts returns and stores one cart id. When the
  request supplies a \<^verbatim>\<open>cart_id\<close> that is a string and is not blank, that id is the
  supplied string trimmed (not the supplied string as it was sent). Otherwise the id is
  generated, and has the form \<^verbatim>\<open>CART-<YYYYMMDD>-<4-digit-random>\<close>: the date is the UTC
  calendar date of the clock, and the suffix lies between 1000 and 9999. This is for a
  value of \<^verbatim>\<open>Math.random()\<close> in its range, from 0 up to but not including 1, and a clock
  in the years 0 to 9999.
\<close>

theorem cart_id_resolution:
  assumes post: "post_carts E e d body = (r, d')"
    and ok: "status r = 200 \<or> status r = 201"
    and random: "0 \<le> Math_random e" "Math_random e < 1"
    and year: "0 \<le> civil_year (utc_day (Date_generateCartId e))"
      "civil_year (utc_day (Date_generateCartId e)) \<le> 9999"
  shows "\<exists>cartId c cs'. get_prop (json r) ''cart_id'' = Some (JStr cartId)
     \<and> stored_carts d' = Some cs' \<and> c \<in> set cs'
     \<and> get_prop c ''cart_id'' = Some (JStr cartId)
     \<and> (case get_prop body ''cart_id'' of
           Some (JStr s) \<Rightarrow> if trim s \<noteq> [] then cartId = trim s else generated_form e cartId
         | _ \<Rightarrow> generated_form e cartId)"
proof -
  let ?cid = "resolved_cart_id e body"
  from post ok have "status (fst (post_carts E e d body)) = 200
      \<or> status (fst (post_carts E e d body)) = 201" by simp
  from post_carts_accepted [OF this] obtain cs idx where valid: "valid_submission E d body"
    and store: "stored_carts d = Some cs"
    and idx: "js_findIndex (cart_id_is ?cid) cs = Some idx" by blast
  from post_carts_valid [OF valid store idx] post obtain s items created_at where
    r: "r = saved_response (0 \<le> idx) ?cid"
    and w: "d' = d\<lparr>CARTS_FILE := Holding (JArr
         (let c = cart_record ?cid (JStr s) items created_at
                    (toISOString (Date_createdAt e)) (toISOString (Date_now e + seven_days))
          in if 0 \<le> idx then cs[nat idx := c] else cs @ [c]))\<rparr>"
    by auto
  define c where "c = cart_record ?cid (JStr s) items created_at
                    (toISOString (Date_createdAt e)) (toISOString (Date_now e + seven_days))"
  define cs' where "cs' = (if 0 \<le> idx then cs[nat idx := c] else cs @ [c])"
  from w have store': "stored_carts d' = Some cs'" by (simp add: cs'_def c_def Let_def)
  have mem: "c \<in> set cs'"
  proof (cases "0 \<le> idx")
    case True
    from findIndex_present [OF idx True] have "nat idx < length cs" by simp
    with True show ?thesis by (simp add: cs'_def set_update_memI)
  next
    case False
    then show ?thesis by (simp add: cs'_def)
  qed
  have cid: "get_prop c ''cart_id'' = Some (JStr ?cid)" by (simp add: c_def)
  have ret: "get_prop (json r) ''cart_id'' = Some (JStr ?cid)" using r by simp
  from valid obtain kvs where "body = JObj kvs" by (rule valid_submission_fields)
  then obtain v where v: "get_prop body ''cart_id'' = Some v" by simp
  have form: "(case get_prop body ''cart_id'' of
           Some (JStr s) \<Rightarrow> if trim s \<noteq> [] then ?cid = trim s else generated_form e ?cid
         | _ \<Rightarrow> generated_form e ?cid)"
    using v generateCartId_form [OF random year] trim_nonempty
    by (cases v) (auto simp: resolved_cart_id_def resolve_cart_id_def)
  from ret store' mem cid form show ?thesis by blast
qed

text \<open>A submission without a cart id, on 2023-11-14 with the random value one half.\<close>

theorem cart_id_resolution_witness:
  "status (fst (post_carts example_engine env1 disk12 body_new)) = 201
   \<and> get_prop body_new ''cart_id'' = Some JUndefined
   \<and> 0 \<le> Math_random env1 \<and> Math_random env1 < 1
   \<and> civil_year (utc_day (Date_generateCartId env1)) = 2023
   \<and> get_prop (json (fst (post_carts example_engine env1 disk12 body_new))) ''cart_id''
       = Some (JStr ''CART-20231114-5500'')
   \<and> generated_form env1 ''CART-20231114-5500''"
proof -
  have ok: "status (saved_response False ''CART-20231114-5500'') = 200
      \<or> status (saved_response False ''CART-20231114-5500'') = 201" by simp
  have random: "0 \<le> Math_random env1" "Math_random env1 < 1"
    by (simp_all add: env1_def)
  have year: "0 \<le> civil_year (utc_day (Date_generateCartId env1))"
    "civil_year (utc_day (Date_generateCartId env1)) \<le> 9999"
    by (simp_all add: year_example)
  have absent: "get_prop body_new ''cart_id'' = Some JUndefined"
    by (simp add: body_new_def)
  from cart_id_resolution [OF post_new ok random year] absent
  have "generated_form env1 ''CART-20231114-5500''" by auto
  with random absent show ?thesis by (simp add: post_new year_example)
qed

text \<open>
  Claim C7 as it is stated says that a supplied cart id is used verbatim. It is not: the
  cart id \<^verbatim>\<open>" c1 "\<close> is not blank, and the cart is returned and stored under \<^verbatim>\<open>"c1"\<close>.
\<close>

theorem cart_id_verbatim_counterexample:
  "get_prop body_padded_cart_id ''cart_id'' = Some (JStr '' c1 '')
   \<and> trim '' c1 '' \<noteq> []
   \<and> get_prop (json (fst (post_carts example_engine env1 disk12 body_padded_cart_id))) ''cart_id''
       = Some (JStr ''c1'')
   \<and> stored_carts (snd (post_carts example_engine env1 disk12 body_padded_cart_id))
       = Some [cart_record ''c1'' (JStr ''u1'') [item 1 2]
                 (JStr ''2023-11-14T22:13:20.000Z'') ''2023-11-14T22:13:20.000Z''
                 ''2023-11-21T22:13:20.000Z'']
   \<and> JStr ''c1'' \<noteq> JStr '' c1 ''"
proof -
  have supplied: "get_prop body_padded_cart_id ''cart_id'' = Some (JStr '' c1 '')"
    by (simp add: body_padded_cart_id_def)
  show ?thesis by (simp add: supplied post_padded_cart_id trim_examples)
qed

subsection \<open>GET /products/:id\<close>

text \<open>
  Claim C8: GET /products/:id compares \<^verbatim>\<open>Number(p.id)\<close> with \<^verbatim>\<open>Number(req.params.id)\<close>. On
  a catalog of product records (the conversion of every id succeeds), when no stored
  product matches the answer is 404 \<^verbatim>\<open>product_not_found\<close>; when one matches, the answer
  is 200 and carries the stored record itself, the first that matches.
\<close>

theorem get_product_by_id:
  assumes cat: "catalog d = Some ps"
    and records: "\<forall>p\<in>set ps. id_is E (StringToNumber E params_id) p \<noteq> None"
  shows "(if \<exists>p\<in>set ps. id_is E (StringToNumber E params_id) p = Some True
          then \<exists>i<length ps. id_is E (StringToNumber E params_id) (ps ! i) = Some True
                 \<and> (\<forall>j<i. id_is E (StringToNumber E params_id) (ps ! j) = Some False)
                 \<and> get_product E d params_id = product_response (ps ! i)
          else get_product E d params_id = failure 404 ''product_not_found'')"
proof (cases "\<exists>p\<in>set ps. id_is E (StringToNumber E params_id) p = Some True")
  case True
  let ?M = "\<lambda>p. id_is E (StringToNumber E params_id) p = Some True"
  define i where "i = length (takeWhile (\<lambda>p. \<not> ?M p) ps)"
  from True have i: "i < length ps"
    unfolding i_def by (intro takeWhile_stops) simp
  have m: "?M (ps ! i)"
    using i nth_length_takeWhile [of "\<lambda>p. \<not> ?M p" ps] unfolding i_def by simp
  have before: "\<forall>j<i. id_is E (StringToNumber E params_id) (ps ! j) = Some False"
  proof (intro allI impI)
    fix j assume j: "j < i"
    then have "takeWhile (\<lambda>p. \<not> ?M p) ps ! j \<in> set (takeWhile (\<lambda>p. \<not> ?M p) ps)"
      unfolding i_def by (rule nth_mem)
    from set_takeWhileD [OF this] have "\<not> ?M (takeWhile (\<lambda>p. \<not> ?M p) ps ! j)" by simp
    with j have nm: "\<not> ?M (ps ! j)" unfolding i_def by (simp add: takeWhile_nth)
    from j i have "ps ! j \<in> set ps" by simp
    with records have "id_is E (StringToNumber E params_id) (ps ! j) \<noteq> None" by blast
    with nm show "id_is E (StringToNumber E params_id) (ps ! j) = Some False" by auto
  qed
  from get_product_found [OF cat i m before] True i m before show ?thesis by auto
next
  case False
  with records have "\<forall>p\<in>set ps. id_is E (StringToNumber E params_id) p = Some False"
    by (metis (full_types) option.exhaust)
  from get_product_missing [OF cat this] False show ?thesis by simp
qed

text \<open>On the catalog with ids 1 and 2: \<^verbatim>\<open>/products/2\<close> gives product 2, \<^verbatim>\<open>/products/9\<close> gives 404.\<close>

theorem get_product_by_id_witness:
  "catalog disk12 = Some [product1, product2]
   \<and> get_product example_engine disk12 ''2'' = product_response product2
   \<and> get_product example_engine disk12 ''9'' = failure 404 ''product_not_found''"
proof -
  have ids: "id_is example_engine (Fin 2) product1 = Some False"
    "id_is example_engine (Fin 2) product2 = Some True"
    "id_is example_engine (Fin 9) product1 = Some False"
    "id_is example_engine (Fin 9) product2 = Some False"
    by (simp_all add: id_is_def product1_def product2_def)
  have r2: "\<forall>p\<in>set [product1, product2]. id_is example_engine (StringToNumber example_engine ''2'') p \<noteq> None"
    by (auto simp: number_examples ids)
  have r9: "\<forall>p\<in>set [product1, product2]. id_is example_engine (StringToNumber example_engine ''9'') p \<noteq> None"
    by (auto simp: number_examples ids)
  have distinct: "product_response product1 \<noteq> product_response product2"
    by (simp add: product_response_def product1_def product2_def)
  from get_product_by_id [OF catalog12 r2]
  have a: "get_product example_engine disk12 ''2'' = product_response product2"
    by (auto simp: number_examples ids less_Suc_eq)
  from get_product_by_id [OF catalog12 r9]
  have b: "get_product example_engine disk12 ''9'' = failure 404 ''product_not_found''"
    by (simp add: number_examples ids)
  from a b catalog12 show ?thesis by simp
qed

subsection \<open>POST /carts: no check of the owner\<close>

text \<open>
  Claim C9: the upsert is keyed by the cart id alone. A valid submission whose resolved
  cart id is that of a stored cart is answered 200, and the first stored record with that
  id is replaced by a record built from the request: its customer id, its items, the new
  dates; only \<^verbatim>\<open>created_at\<close> comes from the old record. Nothing is asked of the customer
  id of the old record, so a customer can overwrite the cart of another one.
\<close>

theorem upsert_ignores_owner:
  assumes valid: "valid_submission E d body"
    and store: "stored_carts d = Some cs"
    and records: "\<forall>c\<in>set cs. c \<noteq> JNull \<and> c \<noteq> JUndefined"
    and existing: "resolved_cart_id e body \<in> set (cart_ids cs)"
    and post: "post_carts E e d body = (r, d')"
  shows "\<exists>i s items created_at.
       i < length cs \<and> cart_id_of (cs ! i) = Some (resolved_cart_id e body)
     \<and> status r = 200
     \<and> get_prop body ''customer_id'' = Some (JStr s)
     \<and> store_items E (items_of body) = Some items
     \<and> get_prop (cs ! i) ''created_at'' = Some created_at
     \<and> stored_carts d' =
         Some (cs[i := cart_record (resolved_cart_id e body) (JStr s) items created_at
                         (toISOString (Date_createdAt e))
                         (toISOString (Date_now e + seven_days))])"
proof -
  let ?cid = "resolved_cart_id e body"
  let ?i = "length (takeWhile (\<lambda>c. cart_id_of c \<noteq> Some ?cid) cs)"
  from findIndex_records [OF records, of ?cid] existing
  have idx: "js_findIndex (cart_id_is ?cid) cs = Some (int ?i)" by simp
  from findIndex_present [OF idx] have i: "?i < length cs"
    and m: "cart_id_is ?cid (cs ! ?i) = Some True" by auto
  from cart_id_is_iff [OF m] have k: "cart_id_of (cs ! ?i) = Some ?cid" by simp
  from post_carts_valid [OF valid store idx] post obtain s items created_at where
    "get_prop body ''customer_id'' = Some (JStr s)"
    "store_items E (items_of body) = Some items"
    "get_prop (cs ! ?i) ''created_at'' = Some created_at"
    "r = saved_response True ?cid"
    "d' = d\<lparr>CARTS_FILE := Holding (JArr (cs[?i := cart_record ?cid (JStr s) items created_at
                         (toISOString (Date_createdAt e))
                         (toISOString (Date_now e + seven_days))]))\<rparr>"
    by (auto simp: Let_def)
  with i k show ?thesis by (intro exI [of _ ?i] exI [of _ s] exI [of _ items] exI [of _ created_at]) simp
qed

text \<open>Customer u2 submits the cart id of the cart of customer u1: the cart is now that of u2.\<close>

theorem upsert_ignores_owner_witness:
  "get_prop cart_u1 ''customer_id'' = Some (JStr ''u1'')
   \<and> stored_carts disk_saved = Some [cart_u1]
   \<and> status (fst (post_carts example_engine env2 disk_saved body_other_customer)) = 200
   \<and> (\<exists>c. stored_carts (snd (post_carts example_engine env2 disk_saved body_other_customer)) = Some [c]
         \<and> get_prop c ''cart_id'' = get_prop cart_u1 ''cart_id''
         \<and> get_prop c ''customer_id'' = Some (JStr ''u2''))"
proof -
  have valid: "valid_submission example_engine disk_saved body_other_customer"
    by (simp add: eval_defs)
  have store: "stored_carts disk_saved = Some [cart_u1]"
    by (simp add: disk_saved_def)
  have records: "\<forall>c\<in>set [cart_u1]. c \<noteq> JNull \<and> c \<noteq> JUndefined"
    by (simp add: cart_u1_def cart_record_def)
  have rid: "resolved_cart_id env2 body_other_customer = ''CART-20231114-5500''"
    by (simp add: eval_defs)
  have existing: "resolved_cart_id env2 body_other_customer \<in> set (cart_ids [cart_u1])"
    by (simp add: rid cart_ids_Cons cart_u1_def)
  have cust: "get_prop body_other_customer ''customer_id'' = Some (JStr ''u2'')"
    by (simp add: body_other_customer_def)
  from upsert_ignores_owner [OF valid store records existing post_other_customer] cust rid
  show ?thesis by (auto simp: post_other_customer store cart_u1_def)
qed

subsection \<open>POST /carts then GET /carts: a customer id with spaces around it\<close>

text \<open>
  Claim C10: the customer id is checked after trimming and stored as it was sent. A valid
  submission whose customer id has white space around it is accepted, and the stored cart
  carries the padded customer id. GET /carts compares for equality: asked for the trimmed
  customer id, it does not return that cart; asked for the padded one, it does.
\<close>

theorem padded_customer_id_is_not_found_again:
  assumes valid: "valid_submission E d body"
    and store: "stored_carts d = Some cs"
    and records: "\<forall>c\<in>set cs. c \<noteq> JNull \<and> c \<noteq> JUndefined"
    and customer: "get_prop body ''customer_id'' = Some (JStr s)"
    and padded: "trim s \<noteq> s"
    and post: "post_carts E e d body = (r, d')"
  shows "\<exists>c cs'. (status r = 200 \<or> status r = 201)
     \<and> stored_carts d' = Some cs' \<and> c \<in> set cs'
     \<and> get_prop c ''cart_id'' = Some (JStr (resolved_cart_id e body))
     \<and> get_prop c ''customer_id'' = Some (JStr s)
     \<and> (\<exists>found. get_carts d' (JStr (trim s)) = carts_response found \<and> c \<notin> set found)
     \<and> (\<exists>found. get_carts d' (JStr s) = carts_response found \<and> c \<in> set found)"
proof -
  let ?cid = "resolved_cart_id e body"
  from findIndex_records [OF records, of ?cid] obtain idx where
    idx: "js_findIndex (cart_id_is ?cid) cs = Some idx" by blast
  from post_carts_valid [OF valid store idx] post customer obtain items created_at where
    t: "trim s \<noteq> []"
    and r: "r = saved_response (0 \<le> idx) ?cid"
    and d': "d' = d\<lparr>CARTS_FILE := Holding (JArr
         (let c = cart_record ?cid (JStr s) items created_at
                    (toISOString (Date_createdAt e)) (toISOString (Date_now e + seven_days))
          in if 0 \<le> idx then cs[nat idx := c] else cs @ [c]))\<rparr>"
    by auto
  define c where "c = cart_record ?cid (JStr s) items created_at
                    (toISOString (Date_createdAt e)) (toISOString (Date_now e + seven_days))"
  define cs' where "cs' = (if 0 \<le> idx then cs[nat idx := c] else cs @ [c])"
  from d' have store': "stored_carts d' = Some cs'" by (simp add: cs'_def c_def Let_def)
  have mem: "c \<in> set cs'"
  proof (cases "0 \<le> idx")
    case True
    from findIndex_present [OF idx True] have "nat idx < length cs" by simp
    with True show ?thesis by (simp add: cs'_def set_update_memI)
  next
    case False
    then show ?thesis by (simp add: cs'_def)
  qed
  have cnn: "c \<noteq> JNull \<and> c \<noteq> JUndefined" by (simp add: c_def cart_record_def)
  have "set cs' \<subseteq> insert c (set cs)"
    using set_update_subset_insert [of cs "nat idx" c] by (auto simp: cs'_def)
  with records cnn have records': "\<forall>x\<in>set cs'. x \<noteq> JNull \<and> x \<noteq> JUndefined" by blast
  from t have ne: "s \<noteq> []" by (rule trim_nonempty)
  have g1: "get_carts d' (JStr (trim s)) =
      carts_response (filter (\<lambda>x. customer_is (JStr (trim s)) x = Some True) cs')"
    using get_carts_records [OF store' records'] t by simp
  have g2: "get_carts d' (JStr s) =
      carts_response (filter (\<lambda>x. customer_is (JStr s) x = Some True) cs')"
    using get_carts_records [OF store' records'] ne by simp
  have no: "customer_is (JStr (trim s)) c = Some False"
    using padded by (auto simp: customer_is_def c_def)
  have yes: "customer_is (JStr s) c = Some True"
    by (simp add: customer_is_def c_def)
  have out: "c \<notin> set (filter (\<lambda>x. customer_is (JStr (trim s)) x = Some True) cs')"
    using no by simp
  have inn: "c \<in> set (filter (\<lambda>x. customer_is (JStr s) x = Some True) cs')"
    using yes mem by simp
  have fields: "get_prop c ''cart_id'' = Some (JStr ?cid)" "get_prop c ''customer_id'' = Some (JStr s)"
    by (simp_all add: c_def)
  have st: "status r = 200 \<or> status r = 201" using r by simp
  show ?thesis
    using st store' mem fields g1 out g2 inn by blast
qed

text \<open>The customer id \<^verbatim>\<open>" u1 "\<close>: the cart is saved, and GET /carts for \<^verbatim>\<open>"u1"\<close> is empty.\<close>

theorem padded_customer_id_is_not_found_again_witness:
  "status (fst (post_carts example_engine env1 disk12 body_padded_customer)) = 201
   \<and> trim '' u1 '' = ''u1''
   \<and> get_carts (snd (post_carts example_engine env1 disk12 body_padded_customer)) (JStr ''u1'')
       = carts_response []
   \<and> get_carts (snd (post_carts example_engine env1 disk12 body_padded_customer))
         (JStr '' u1 '')
       = carts_response [cart_record ''CART-20231114-5500'' (JStr '' u1 '') [item 1 2]
           (JStr ''2023-11-14T22:13:20.000Z'') ''2023-11-14T22:13:20.000Z''
           ''2023-11-21T22:13:20.000Z'']"
proof -
  have valid: "valid_submission example_engine disk12 body_padded_customer"
    by (simp add: eval_defs)
  have store: "stored_carts disk12 = Some []"
    by (simp add: eval_defs)
  have records: "\<forall>c\<in>set []. c \<noteq> JNull \<and> c \<noteq> JUndefined" by simp
  have customer: "get_prop body_padded_customer ''customer_id'' = Some (JStr '' u1 '')"
    by (simp add: body_padded_customer_def)
  have padded: "trim '' u1 '' \<noteq> '' u1 ''" by (simp add: trim_examples)
  have g1: "get_carts (snd (post_carts example_engine env1 disk12 body_padded_customer)) (JStr ''u1'')
       = carts_response []"
    by (simp add: post_padded_customer get_carts_def get_carts_try_def readJsonOrEmpty_def
        customer_is_def carts_response_def)
  have g2: "get_carts (snd (post_carts example_engine env1 disk12 body_padded_customer)) (JStr '' u1 '')
       = carts_response [cart_record ''CART-20231114-5500'' (JStr '' u1 '') [item 1 2]
         (JStr ''2023-11-14T22:13:20.000Z'') ''2023-11-14T22:13:20.000Z''
         ''2023-11-21T22:13:20.000Z'']"
    by (simp add: post_padded_customer get_carts_def get_carts_try_def readJsonOrEmpty_def
        customer_is_def carts_response_def)
  from padded_customer_id_is_not_found_again
    [OF valid store records customer padded post_padded_customer]
  have "status (saved_response False ''CART-20231114-5500'') = 200
      \<or> status (saved_response False ''CART-20231114-5500'') = 201" by blast
  then show ?thesis using g1 g2 by (simp add: post_padded_customer trim_examples)
qed

end
